theory Spec2Isabelle
  imports Main "HOL-Library.Word" "HOL-Library.Sublist"
begin

section \<open>Data model\<close>

text \<open>
  The two source files are \<^verbatim>\<open>cpp/src/plasma/tensorflow_op/tf_plasma_op.cc\<close> (the Put
  kernel \<^verbatim>\<open>TensorToPlasmaOp\<close> and the Get kernel \<^verbatim>\<open>PlasmaToTensorOp\<close>) and
  \<^verbatim>\<open>cpp/src/arrow/python/tensor_util.cc\<close> (the two header helpers).

  Bytes are 8-bit words. A \<^verbatim>\<open>size_t\<close> is a natural number below \<open>2 ^ 64\<close>; its
  addition and subtraction wrap and the wrap-around is written out.
\<close>

type_synonym byte = "8 word"

definition sizeof_float :: nat where
  "sizeof_float = 4"

definition size_t_add :: "nat \<Rightarrow> nat \<Rightarrow> nat" where
  "size_t_add a b = (a + b) mod 2 ^ 64"

definition size_t_sub :: "nat \<Rightarrow> nat \<Rightarrow> nat" where
  "size_t_sub a b = (a mod 2 ^ 64 + 2 ^ 64 - b mod 2 ^ 64) mod 2 ^ 64"

definition size_t_mul :: "nat \<Rightarrow> nat \<Rightarrow> nat" where
  "size_t_mul a b = (a * b) mod 2 ^ 64"

text \<open>\<^verbatim>\<open>static_cast<int64_t>\<close> of a \<^verbatim>\<open>size_t\<close>: the two's complement reading.\<close>

definition to_int64 :: "nat \<Rightarrow> int" where
  "to_int64 n = (if n mod 2 ^ 64 < 2 ^ 63 then int (n mod 2 ^ 64) else int (n mod 2 ^ 64) - 2 ^ 64)"

text \<open>
  The sum of two \<^verbatim>\<open>int64_t\<close>, as the machine computes it: the two's complement
  wrap-around is written out.
\<close>

definition int64_add :: "int \<Rightarrow> int \<Rightarrow> int" where
  "int64_add a b = (a + b + 2 ^ 63) mod 2 ^ 64 - 2 ^ 63"

text \<open>The element types of the host runtime, as the switch of \<^verbatim>\<open>tf_dtype_to_arrow\<close> lists them.\<close>

datatype DataType =
    DT_BOOL | DT_FLOAT | DT_DOUBLE | DT_HALF
  | DT_INT8 | DT_INT16 | DT_INT32 | DT_INT64
  | DT_UINT8 | DT_UINT16 | DT_UINT32 | DT_UINT64
  | DT_BFLOAT16 | DT_COMPLEX64 | DT_COMPLEX128 | DT_INVALID
  | DT_QINT8 | DT_QINT16 | DT_QINT32 | DT_QUINT8 | DT_QUINT16
  | DT_RESOURCE | DT_STRING | DT_VARIANT

datatype ArrowType =
    arrow_boolean | arrow_float32 | arrow_float64 | arrow_float16
  | arrow_int8 | arrow_int16 | arrow_int32 | arrow_int64
  | arrow_uint8 | arrow_uint16 | arrow_uint32 | arrow_uint64

text \<open>Status codes of the store and serialization layer (\<^verbatim>\<open>arrow::StatusCode\<close>).\<close>

datatype StatusCode =
    OutOfMemory | KeyError | TypeError | Invalid | IOError | UnknownError
  | SerializationError | PlasmaObjectExists | PlasmaObjectNonexistent | PlasmaStoreFull

text \<open>
  A fatal check ends the process: \<^verbatim>\<open>CHECK\<close>, \<^verbatim>\<open>CHECK_EQ\<close>, \<^verbatim>\<open>CHECK_GT\<close> of the runtime's
  logging, and \<^verbatim>\<open>ARROW_CHECK_OK\<close> on a status that is not OK.
\<close>

datatype fatal =
    CHECK_failed string
  | ARROW_CHECK_failed StatusCode

text \<open>
  A tensor of the host runtime: its element type, its element count, the bytes behind
  \<^verbatim>\<open>flat<T>().data()\<close> (\<^verbatim>\<open>TotalBytes()\<close> is their number), and for a string tensor its
  elements.
\<close>

record Tensor =
  dtype :: DataType
  NumElements :: nat
  tensor_data :: "byte list"
  flat_string :: "string list"

definition TotalBytes :: "Tensor \<Rightarrow> nat" where
  "TotalBytes t = length (tensor_data t)"

section \<open>Put: the offset table (lines 144-154)\<close>

text \<open>
  \<^verbatim>\<open>
  std::vector<size_t> offsets;  offsets.push_back(0);  size_t total_bytes = 0;
  for (int i = 0; i < num_tensors; ++i) {
    const size_t s = context->input(i).TotalBytes();
    CHECK_EQ(s, context->input(i).NumElements() * sizeof(float));
    CHECK_GT(s, 0);
    total_bytes += s;
    offsets.push_back(total_bytes);
  }
  \<close>
  The loop runs over the tensors left to visit, with the vector and the running total as
  they stand.
\<close>

fun offsets_loop :: "Tensor list \<Rightarrow> nat list \<Rightarrow> nat \<Rightarrow> fatal + (nat list \<times> nat)" where
  "offsets_loop [] offsets total_bytes = Inr (offsets, total_bytes)"
| "offsets_loop (t # ts) offsets total_bytes =
    (let s = TotalBytes t in
     if s \<noteq> size_t_mul (NumElements t) sizeof_float
       then Inl (CHECK_failed ''s == NumElements * sizeof(float)'')
     else if \<not> s > 0
       then Inl (CHECK_failed ''s > 0'')
     else let total_bytes' = size_t_add total_bytes s
          in offsets_loop ts (offsets @ [total_bytes']) total_bytes')"

definition compute_offsets :: "Tensor list \<Rightarrow> fatal + (nat list \<times> nat)" where
  "compute_offsets tensors = offsets_loop tensors [0] 0"


section \<open>Put: element types (lines 59-101 and 156-163)\<close>

text \<open>
  \<^verbatim>\<open>tf_dtype_to_arrow\<close>: twelve types are mapped; every other case of the switch runs
  \<^verbatim>\<open>ARROW_CHECK_OK\<close> on a \<^verbatim>\<open>TypeError\<close> status, which is fatal.
\<close>

fun tf_dtype_to_arrow :: "DataType \<Rightarrow> fatal + ArrowType" where
  "tf_dtype_to_arrow DT_BOOL = Inr arrow_boolean"
| "tf_dtype_to_arrow DT_FLOAT = Inr arrow_float32"
| "tf_dtype_to_arrow DT_DOUBLE = Inr arrow_float64"
| "tf_dtype_to_arrow DT_HALF = Inr arrow_float16"
| "tf_dtype_to_arrow DT_INT8 = Inr arrow_int8"
| "tf_dtype_to_arrow DT_INT16 = Inr arrow_int16"
| "tf_dtype_to_arrow DT_INT32 = Inr arrow_int32"
| "tf_dtype_to_arrow DT_INT64 = Inr arrow_int64"
| "tf_dtype_to_arrow DT_UINT8 = Inr arrow_uint8"
| "tf_dtype_to_arrow DT_UINT16 = Inr arrow_uint16"
| "tf_dtype_to_arrow DT_UINT32 = Inr arrow_uint32"
| "tf_dtype_to_arrow DT_UINT64 = Inr arrow_uint64"
| "tf_dtype_to_arrow _ = Inl (ARROW_CHECK_failed TypeError)"

text \<open>
  \<^verbatim>\<open>
  DataType tf_dtype = context->input(0).dtype();
  for (int i = 1; i < num_inputs - 1; i++)
    if (tf_dtype != context->input(i).dtype())
      ARROW_CHECK_OK(arrow::Status(arrow::StatusCode::TypeError, ...));
  \<close>
  The loop below runs over the tensors at the indices \<open>1 .. num_inputs - 2\<close>.
\<close>

fun check_dtypes :: "DataType \<Rightarrow> Tensor list \<Rightarrow> fatal + unit" where
  "check_dtypes tf_dtype [] = Inr ()"
| "check_dtypes tf_dtype (t # ts) =
    (if tf_dtype \<noteq> dtype t then Inl (ARROW_CHECK_failed TypeError)
     else check_dtypes tf_dtype ts)"

text \<open>
  The typed accessors of the host runtime, \<^verbatim>\<open>flat<std::string>()(0)\<close> and
  \<^verbatim>\<open>flat<float>().data()\<close>: each checks the tensor's element type against its template
  argument with a fatal check before it hands the data out.
\<close>

definition flat_string_0 :: "Tensor \<Rightarrow> fatal + string" where
  "flat_string_0 t =
    (if dtype t \<noteq> DT_STRING then Inl (CHECK_failed ''dtype() == expected_dtype'')
     else case flat_string t of
            [] \<Rightarrow> Inl (CHECK_failed ''index 0 out of range'')
          | s # rest \<Rightarrow> Inr s)"

definition flat_float_data :: "Tensor \<Rightarrow> fatal + byte list" where
  "flat_float_data t =
    (if dtype t \<noteq> DT_FLOAT then Inl (CHECK_failed ''dtype() == expected_dtype'')
     else Inr (tensor_data t))"

section \<open>The header helpers (tensor\_util.cc)\<close>

text \<open>
  An \<^verbatim>\<open>arrow::Tensor\<close>: element type, data buffer, shape. Both helpers build the
  placeholder \<^verbatim>\<open>Tensor(dtype, Buffer(nullptr, 0), shape)\<close>, whose buffer is empty.
\<close>

record ArrowTensor =
  tensor_type :: ArrowType
  tensor_buffer :: "byte list"
  tensor_shape :: "int list"

text \<open>
  \<^verbatim>\<open>SerializeTensor\<close> and \<^verbatim>\<open>SerializedPyObject::WriteTo\<close> are not among the sources. They
  are parameters of the model: \<open>SerializeTensor\<close> maps a tensor to a serialized object of
  some type \<open>'s\<close> or fails with a status, and \<open>WriteTo\<close> gives the bytes that the object
  hands to the \<^verbatim>\<open>Write\<close> calls of a sink that starts at position 0, or fails with a status.
  The serializer may read the tensor's buffer.
\<close>

record 's Serializer =
  SerializeTensor :: "ArrowTensor \<Rightarrow> StatusCode + 's"
  WriteTo :: "'s \<Rightarrow> StatusCode + byte list"

text \<open>
  Modelled from the spec: \<^verbatim>\<open>arrow::io::MockOutputStream\<close> is missing from the sources. The
  spec calls it a byte-counting sink whose byte count is the header size: a write adds the
  number of bytes to the extent, and nothing is stored.
\<close>

definition MockOutputStream_Write :: "nat \<Rightarrow> byte list \<Rightarrow> nat" where
  "MockOutputStream_Write extent_bytes_written bytes = extent_bytes_written + length bytes"

text \<open>
  Modelled from the spec: \<^verbatim>\<open>arrow::io::FixedSizeBufferWriter\<close> is missing from the sources.
  The spec has the header serialized into the destination buffer starting at offset 0, and
  the offset right after the header reported: a write puts the bytes at the position and
  moves the position on, and \<^verbatim>\<open>Tell\<close> gives the position. A write that would run past the
  end of the buffer touches memory outside of it; the model has \<open>None\<close> there.
\<close>

record FixedSizeBufferWriter =
  buffer :: "byte list"
  position :: nat

definition FixedSizeBufferWriter_Write ::
    "FixedSizeBufferWriter \<Rightarrow> byte list \<Rightarrow> FixedSizeBufferWriter option" where
  "FixedSizeBufferWriter_Write buf bytes =
    (if position buf + length bytes \<le> length (buffer buf)
     then Some \<lparr>buffer = take (position buf) (buffer buf) @ bytes
                           @ drop (position buf + length bytes) (buffer buf),
                 position = position buf + length bytes\<rparr>
     else None)"

text \<open>
  \<^verbatim>\<open>
  Status TensorFlowTensorGetHeaderSize(dtype, shape, int64_t* header_size) {
    arrow::io::MockOutputStream mock;
    auto empty_tensor = std::make_shared<arrow::Tensor>(dtype, Buffer(nullptr, 0), shape);
    arrow::py::SerializedPyObject serialized_tensor;
    RETURN_NOT_OK(SerializeTensor(empty_tensor, &serialized_tensor));
    RETURN_NOT_OK(serialized_tensor.WriteTo(&mock));
    *header_size = mock.GetExtentBytesWritten();
    return Status::OK();
  }
  \<close>
\<close>

definition TensorFlowTensorGetHeaderSize ::
    "'s Serializer \<Rightarrow> ArrowType \<Rightarrow> int list \<Rightarrow> StatusCode + int" where
  "TensorFlowTensorGetHeaderSize ser arrow_dtype shape =
    (let mock = 0;
         empty_tensor = \<lparr>tensor_type = arrow_dtype, tensor_buffer = [], tensor_shape = shape\<rparr>
     in case SerializeTensor ser empty_tensor of
          Inl e \<Rightarrow> Inl e
        | Inr serialized_tensor \<Rightarrow>
            (case WriteTo ser serialized_tensor of
               Inl e \<Rightarrow> Inl e
             | Inr bytes \<Rightarrow> Inr (int (MockOutputStream_Write mock bytes))))"

text \<open>
  \<^verbatim>\<open>
  Status TensorFlowTensorWrite(dtype, shape, std::shared_ptr<Buffer> buffer, int64_t* offset) {
    arrow::io::FixedSizeBufferWriter buf(buffer);
    auto empty_tensor = std::make_shared<arrow::Tensor>(dtype, Buffer(nullptr, 0), shape);
    arrow::py::SerializedPyObject serialized_tensor;
    RETURN_NOT_OK(SerializeTensor(empty_tensor, &serialized_tensor));
    RETURN_NOT_OK(serialized_tensor.WriteTo(&buf));
    return buf.Tell(offset);
  }
  \<close>
  The result is \<open>None\<close> when the write runs past the buffer, a status when serialization
  fails, and otherwise the buffer as written together with the offset.
\<close>

definition TensorFlowTensorWrite ::
    "'s Serializer \<Rightarrow> ArrowType \<Rightarrow> int list \<Rightarrow> byte list \<Rightarrow> (StatusCode + byte list \<times> int) option" where
  "TensorFlowTensorWrite ser arrow_dtype shape buffer0 =
    (let buf = \<lparr>buffer = buffer0, position = 0\<rparr>;
         empty_tensor = \<lparr>tensor_type = arrow_dtype, tensor_buffer = [], tensor_shape = shape\<rparr>
     in case SerializeTensor ser empty_tensor of
          Inl e \<Rightarrow> Some (Inl e)
        | Inr serialized_tensor \<Rightarrow>
            (case WriteTo ser serialized_tensor of
               Inl e \<Rightarrow> Some (Inl e)
             | Inr bytes \<Rightarrow>
                 (case FixedSizeBufferWriter_Write buf bytes of
                    None \<Rightarrow> None
                  | Some buf' \<Rightarrow> Some (Inr (buffer buf', int (position buf'))))))"


section \<open>The world of one kernel invocation\<close>

text \<open>
  The status of the host runtime's operation context, as the kernels set it.
\<close>

datatype tf_Status =
    tf_OK
  | InvalidArgument string
  | Internal string
  | ResourceExhausted string

datatype Device = CPUDevice | GPUDevice

type_synonym ObjectID = string

text \<open>
  Modelled from the spec: \<^verbatim>\<open>plasma::ObjectID::from_binary\<close> is missing from the sources. The
  spec has the identifier as a fixed-length, 20-byte binary name.
\<close>

definition from_binary :: "string \<Rightarrow> ObjectID" where
  "from_binary binary = take 20 binary"

text \<open>
  What a kernel passes to \<^verbatim>\<open>event_mgr->ThenExecute\<close>: the closure \<^verbatim>\<open>wrapped_callback\<close> of
  Put (it captures the object identifier), or \<^verbatim>\<open>done\<close> itself in Get.
\<close>

datatype callback =
    WrappedCallback ObjectID
  | DoneCallback

text \<open>
  The work a kernel puts on a staging stream, in the order of the calls:
  \<^verbatim>\<open>ThenWaitFor\<close>, \<^verbatim>\<open>ThenMemcpy\<close> from device to host (the object, the index of the input,
  the byte position in the object's buffer, the source bytes, the byte count),
  \<^verbatim>\<open>ThenMemcpy\<close> from host to device (the source bytes and the byte count), and the
  callback handed to \<^verbatim>\<open>ThenExecute\<close>.
\<close>

datatype stream_op =
    Op_WaitFor
  | Op_Memcpy_D2H ObjectID nat nat "byte list" nat
  | Op_Memcpy_H2D "byte list" nat
  | Op_Execute callback

text \<open>
  The calls a kernel makes that the claims speak of, in the order they happen: the store
  client's \<^verbatim>\<open>Create\<close>, \<^verbatim>\<open>Seal\<close> and \<^verbatim>\<open>Get\<close>, the header size request, the output
  allocation, a payload copy that has landed in the object's buffer, and \<^verbatim>\<open>done()\<close>.
\<close>

datatype event =
    Store_Create ObjectID int
  | Store_Seal ObjectID
  | Store_Get ObjectID
  | Header_Size ArrowType "int list"
  | Allocate_Output "int list"
  | Copy_Landed ObjectID nat
  | Callback_Done

record PlasmaObject =
  object_data :: "byte list"
  sealed :: bool

text \<open>
  The state a kernel invocation reads and writes: the store behind the client, the two
  static staging streams (\<open>None\<close> is \<^verbatim>\<open>nullptr\<close>, otherwise the work not yet completed),
  the context's status and output tensor 0, and the calls made so far.
\<close>

record World =
  connected :: bool
  store :: "ObjectID \<Rightarrow> PlasmaObject option"
  store_free :: nat
  d2h_stream :: "stream_op list option"
  h2d_stream :: "stream_op list option"
  status :: tf_Status
  output_tensor :: "byte list option"
  trace :: "event list"

text \<open>
  What the host runtime and the device answer to the calls of a kernel: whether the
  operation's device context has a stream, the results of \<^verbatim>\<open>HostMemoryRegister\<close>,
  \<^verbatim>\<open>Stream::Init\<close>, \<^verbatim>\<open>ThenWaitFor\<close> and of the \<open>i\<close>-th \<^verbatim>\<open>ThenMemcpy\<close>, and the status of
  \<^verbatim>\<open>allocate_output\<close> for a shape.
\<close>

record Env =
  orig_stream_available :: bool
  HostMemoryRegister_ok :: bool
  Stream_Init_ok :: bool
  ThenWaitFor_ok :: bool
  ThenMemcpy_ok :: "nat \<Rightarrow> bool"
  allocate_output_status :: "int list \<Rightarrow> tf_Status"

text \<open>
  How an invocation ends: it returns, a fatal check ends the process, the blocking fetch
  never comes back, or a copy runs outside its buffer.
\<close>

datatype outcome =
    Returned
  | Aborted fatal
  | Blocked
  | Memory_Overrun

definition log_event :: "event \<Rightarrow> World \<Rightarrow> World" where
  "log_event e w = w\<lparr>trace := trace w @ [e]\<rparr>"

definition SetStatus :: "tf_Status \<Rightarrow> World \<Rightarrow> World" where
  "SetStatus s w = w\<lparr>status := s\<rparr>"

definition call_done :: "World \<Rightarrow> World" where
  "call_done w = log_event Callback_Done w"

subsection \<open>The store client\<close>

text \<open>
  Modelled from the spec: \<^verbatim>\<open>plasma::PlasmaClient\<close> is missing from the sources. The spec's
  contract: \<^verbatim>\<open>Create(id, totalSize)\<close> allocates a new writable object and fails if the
  identifier already exists or the store is full; \<^verbatim>\<open>Seal(id)\<close> finalizes a created object
  and fails if it is not yet created or already sealed; \<^verbatim>\<open>Get\<close> with timeout \<open>-1\<close> is a
  blocking fetch that waits until the object is sealed. A client whose session is torn
  down fails every call.
\<close>

definition client_Create :: "ObjectID \<Rightarrow> int \<Rightarrow> World \<Rightarrow> (StatusCode + byte list) \<times> World" where
  "client_Create object_id data_size w =
    (let w1 = log_event (Store_Create object_id data_size) w in
     if \<not> connected w then (Inl IOError, w1)
     else if store w object_id \<noteq> None then (Inl PlasmaObjectExists, w1)
     else if data_size < 0 \<or> store_free w < nat data_size then (Inl PlasmaStoreFull, w1)
     else (Inr (replicate (nat data_size) 0),
           w1\<lparr>store := (store w)(object_id \<mapsto>
                   \<lparr>object_data = replicate (nat data_size) 0, sealed = False\<rparr>),
              store_free := store_free w - nat data_size\<rparr>))"

definition client_Seal :: "ObjectID \<Rightarrow> World \<Rightarrow> (StatusCode + unit) \<times> World" where
  "client_Seal object_id w =
    (let w1 = log_event (Store_Seal object_id) w in
     if \<not> connected w then (Inl IOError, w1)
     else case store w object_id of
            None \<Rightarrow> (Inl PlasmaObjectNonexistent, w1)
          | Some obj \<Rightarrow>
              if sealed obj then (Inl Invalid, w1)
              else (Inr (), w1\<lparr>store := (store w)(object_id \<mapsto> obj\<lparr>sealed := True\<rparr>)\<rparr>))"

text \<open>\<open>None\<close>: the fetch blocks, since no sealed object of that name is in the store.\<close>

definition client_Get :: "ObjectID \<Rightarrow> World \<Rightarrow> (StatusCode + byte list) option \<times> World" where
  "client_Get object_id w =
    (let w1 = log_event (Store_Get object_id) w in
     if \<not> connected w then (Some (Inl IOError), w1)
     else case store w object_id of
            None \<Rightarrow> (None, w1)
          | Some obj \<Rightarrow> if sealed obj then (Some (Inr (object_data obj)), w1) else (None, w1))"

subsection \<open>Copies\<close>

text \<open>
  \<^verbatim>\<open>memcpy(dst + pos, src, n)\<close> on a destination buffer and a source of known lengths;
  \<open>None\<close> when it would read or write outside of them.
\<close>

definition memcpy :: "byte list \<Rightarrow> nat \<Rightarrow> byte list \<Rightarrow> nat \<Rightarrow> byte list option" where
  "memcpy dst pos src n =
    (if pos + n \<le> length dst \<and> n \<le> length src
     then Some (take pos dst @ take n src @ drop (pos + n) dst)
     else None)"

text \<open>A copy into the buffer of a store object, which the kernel holds by pointer.\<close>

definition copy_to_object ::
    "ObjectID \<Rightarrow> nat \<Rightarrow> nat \<Rightarrow> byte list \<Rightarrow> nat \<Rightarrow> World \<Rightarrow> outcome \<times> World" where
  "copy_to_object object_id i pos src n w =
    (case store w object_id of
       None \<Rightarrow> (Memory_Overrun, w)
     | Some obj \<Rightarrow>
         (case memcpy (object_data obj) pos src n of
            None \<Rightarrow> (Memory_Overrun, w)
          | Some data' \<Rightarrow>
              (Returned,
               log_event (Copy_Landed object_id i)
                 (w\<lparr>store := (store w)(object_id \<mapsto> obj\<lparr>object_data := data'\<rparr>)\<rparr>))))"

definition set_object_data :: "ObjectID \<Rightarrow> byte list \<Rightarrow> World \<Rightarrow> World" where
  "set_object_data object_id data' w =
    (case store w object_id of
       None \<Rightarrow> w
     | Some obj \<Rightarrow> w\<lparr>store := (store w)(object_id \<mapsto> obj\<lparr>object_data := data'\<rparr>)\<rparr>)"


subsection \<open>The staging streams\<close>

datatype direction = D2H | H2D

definition stream_of :: "direction \<Rightarrow> World \<Rightarrow> stream_op list option" where
  "stream_of d w = (case d of D2H \<Rightarrow> d2h_stream w | H2D \<Rightarrow> h2d_stream w)"

definition set_stream :: "direction \<Rightarrow> stream_op list option \<Rightarrow> World \<Rightarrow> World" where
  "set_stream d q w = (case d of D2H \<Rightarrow> w\<lparr>d2h_stream := q\<rparr> | H2D \<Rightarrow> w\<lparr>h2d_stream := q\<rparr>)"

text \<open>
  \<^verbatim>\<open>
  mutex_lock l(d2h_stream_mu);
  if (d2h_stream == nullptr) {
    d2h_stream = new Stream(stream_executor);
    CHECK(d2h_stream->Init().ok());
  }
  \<close>
\<close>

definition init_stream :: "direction \<Rightarrow> Env \<Rightarrow> World \<Rightarrow> fatal + World" where
  "init_stream d env w =
    (case stream_of d w of
       Some q \<Rightarrow> Inr w
     | None \<Rightarrow>
         if Stream_Init_ok env then Inr (set_stream d (Some []) w)
         else Inl (CHECK_failed ''stream->Init().ok()''))"

text \<open>A call that puts work on a stream appends it to the work not yet completed.\<close>

definition enqueue :: "direction \<Rightarrow> stream_op \<Rightarrow> World \<Rightarrow> World" where
  "enqueue d sop w = set_stream d (map_option (\<lambda>q. q @ [sop]) (stream_of d w)) w"

section \<open>Put: TensorToPlasmaOp::ComputeAsync (lines 136-253)\<close>

text \<open>
  \<^verbatim>\<open>
  auto wrapped_callback = [this, context, done, data_buffer, object_id]() {
    { mutex_lock lock(mu_);  ARROW_CHECK_OK(client_.Seal(object_id)); }
    context->SetStatus(tensorflow::Status::OK());
    done();
  };
  \<close>
\<close>

definition wrapped_callback :: "ObjectID \<Rightarrow> World \<Rightarrow> outcome \<times> World" where
  "wrapped_callback object_id w =
    (case client_Seal object_id w of
       (Inl e, w1) \<Rightarrow> (Aborted (ARROW_CHECK_failed e), w1)
     | (Inr u, w1) \<Rightarrow> (Returned, call_done (SetStatus tf_OK w1)))"

text \<open>
  Lines 142-173, after the arity check: the offset table, the element type check, the
  object identifier, the store's element type and the shape of the header request. None
  of these steps calls the store.
\<close>

record PutPlan =
  plan_offsets :: "nat list"
  plan_total_bytes :: nat
  plan_object_id :: ObjectID
  plan_arrow_dtype :: ArrowType
  plan_shape :: "int list"

definition Put_plan :: "Tensor list \<Rightarrow> fatal + PutPlan" where
  "Put_plan inputs =
    (let num_inputs = length inputs;
         num_tensors = num_inputs - 1
     in (case compute_offsets (take num_tensors inputs) of
           Inl f \<Rightarrow> Inl f
         | Inr (offsets, total_bytes) \<Rightarrow>
     (let tf_dtype = dtype (inputs ! 0)
      in (case check_dtypes tf_dtype (drop 1 (take num_tensors inputs)) of
            Inl f \<Rightarrow> Inl f
          | Inr u \<Rightarrow>
     (let plasma_object_id = inputs ! (num_inputs - 1)
      in (if NumElements plasma_object_id \<noteq> 1
          then Inl (CHECK_failed ''plasma_object_id.NumElements() == 1'')
          else (case flat_string_0 plasma_object_id of
                  Inl f \<Rightarrow> Inl f
                | Inr plasma_object_id_str \<Rightarrow>
     (let object_id = from_binary plasma_object_id_str
      in (case tf_dtype_to_arrow tf_dtype of
            Inl f \<Rightarrow> Inl f
          | Inr arrow_dtype \<Rightarrow>
              Inr \<lparr>plan_offsets = offsets,
                   plan_total_bytes = total_bytes,
                   plan_object_id = object_id,
                   plan_arrow_dtype = arrow_dtype,
                   plan_shape = [to_int64 (total_bytes div sizeof_float)]\<rparr>)))))))))"

text \<open>
  Lines 203-208, the host path:
  \<^verbatim>\<open>
  for (int i = 0; i < num_tensors; ++i) {
    const auto& input_tensor = context->input(i);
    std::memcpy(static_cast<void*>(data + offsets[i] / sizeof(float)),
                input_tensor.flat<float>().data(),
                static_cast<uint64>(offsets[i + 1] - offsets[i]));
  }
  \<close>
  \<open>data\<close> is a \<^verbatim>\<open>float*\<close>, so the byte position is
  \<open>data + sizeof(float) * (offsets[i] / sizeof(float))\<close>.
\<close>

fun host_copy_loop ::
    "Tensor list \<Rightarrow> nat list \<Rightarrow> ObjectID \<Rightarrow> nat \<Rightarrow> nat list \<Rightarrow> World \<Rightarrow> outcome \<times> World" where
  "host_copy_loop inputs offsets object_id data [] w = (Returned, w)"
| "host_copy_loop inputs offsets object_id data (i # rest) w =
    (case flat_float_data (inputs ! i) of
       Inl f \<Rightarrow> (Aborted f, w)
     | Inr src \<Rightarrow>
         (let (r, w') = copy_to_object object_id i
                          (data + sizeof_float * (offsets ! i div sizeof_float)) src
                          (size_t_sub (offsets ! (i + 1)) (offsets ! i)) w
          in if r = Returned then host_copy_loop inputs offsets object_id data rest w'
             else (r, w')))"

text \<open>
  Lines 235-248, the device path: one \<^verbatim>\<open>ThenMemcpy\<close> per input on the staging stream;
  the loop leaves at the first one that is not enqueued.
\<close>

fun device_enqueue_loop ::
    "Env \<Rightarrow> Tensor list \<Rightarrow> nat list \<Rightarrow> ObjectID \<Rightarrow> nat \<Rightarrow> nat list \<Rightarrow> World
      \<Rightarrow> (fatal + bool) \<times> World" where
  "device_enqueue_loop env inputs offsets object_id data [] w = (Inr True, w)"
| "device_enqueue_loop env inputs offsets object_id data (i # rest) w =
    (case flat_float_data (inputs ! i) of
       Inl f \<Rightarrow> (Inl f, w)
     | Inr src \<Rightarrow>
         if ThenMemcpy_ok env i
         then device_enqueue_loop env inputs offsets object_id data rest
                (enqueue D2H
                   (Op_Memcpy_D2H object_id i
                      (data + sizeof_float * (offsets ! i div sizeof_float)) src
                      (size_t_sub (offsets ! (i + 1)) (offsets ! i))) w)
         else (Inr False, w))"

text \<open>Lines 211-250, with \<^verbatim>\<open>GOOGLE_CUDA\<close> defined.\<close>

definition Put_device ::
    "Env \<Rightarrow> Tensor list \<Rightarrow> nat list \<Rightarrow> ObjectID \<Rightarrow> nat \<Rightarrow> nat \<Rightarrow> World \<Rightarrow> outcome \<times> World" where
  "Put_device env inputs offsets object_id data num_tensors w =
    (if \<not> orig_stream_available env
     then (Returned, call_done (SetStatus (Internal ''No GPU stream available.'') w))
     else if \<not> HostMemoryRegister_ok env
     then (Aborted (CHECK_failed ''HostMemoryRegister''), w)
     else (case init_stream D2H env w of
             Inl f \<Rightarrow> (Aborted f, w)
           | Inr w1 \<Rightarrow>
     (if \<not> ThenWaitFor_ok env
      then (Aborted (CHECK_failed ''d2h_stream->ThenWaitFor(orig_stream).ok()''), w1)
      else (case device_enqueue_loop env inputs offsets object_id data [0..<num_tensors]
                   (enqueue D2H Op_WaitFor w1) of
              (Inl f, w2) \<Rightarrow> (Aborted f, w2)
            | (Inr success, w2) \<Rightarrow>
                (if \<not> success
                 then (Returned,
                       call_done (SetStatus (Internal ''D2H memcpy failed to be enqueued.'') w2))
                 else (Returned, enqueue D2H (Op_Execute (WrappedCallback object_id)) w2))))))"

text \<open>
  Lines 175-209, from the header size request on: the store object is created, the header
  is written into its buffer, and the payload is copied on the host or enqueued on the
  device.
\<close>

definition Put_store ::
    "'s Serializer \<Rightarrow> Env \<Rightarrow> Device \<Rightarrow> Tensor list \<Rightarrow> PutPlan \<Rightarrow> World \<Rightarrow> outcome \<times> World" where
  "Put_store ser env device inputs plan w =
    (let w1 = log_event (Header_Size (plan_arrow_dtype plan) (plan_shape plan)) w
     in (case TensorFlowTensorGetHeaderSize ser (plan_arrow_dtype plan) (plan_shape plan) of
           Inl e \<Rightarrow> (Aborted (ARROW_CHECK_failed e), w1)
         | Inr header_size \<Rightarrow>
     (case client_Create (plan_object_id plan)
             (int64_add header_size (to_int64 (plan_total_bytes plan))) w1 of
        (Inl e, w2) \<Rightarrow> (Aborted (ARROW_CHECK_failed e), w2)
      | (Inr data_buffer, w2) \<Rightarrow>
     (case TensorFlowTensorWrite ser (plan_arrow_dtype plan) (plan_shape plan) data_buffer of
        None \<Rightarrow> (Memory_Overrun, w2)
      | Some (Inl e) \<Rightarrow> (Aborted (ARROW_CHECK_failed e), w2)
      | Some (Inr (buffer', offset)) \<Rightarrow>
     (let w3 = set_object_data (plan_object_id plan) buffer' w2;
          data = nat offset;
          num_tensors = length inputs - 1
      in (case device of
            CPUDevice \<Rightarrow>
              (let (r, w4) = host_copy_loop inputs (plan_offsets plan) (plan_object_id plan)
                               data [0..<num_tensors] w3
               in (if r = Returned then wrapped_callback (plan_object_id plan) w4
                   else (r, w4)))
          | GPUDevice \<Rightarrow>
              Put_device env inputs (plan_offsets plan) (plan_object_id plan) data
                num_tensors w3))))))"

text \<open>
  \<^verbatim>\<open>
  const int num_inputs = context->num_inputs();
  OP_REQUIRES_ASYNC(context, num_inputs >= 2,
      errors::InvalidArgument("Input should have at least 1 tensor and 1 object_id"), done);
  \<close>
  \<^verbatim>\<open>OP_REQUIRES_ASYNC\<close> sets the status, calls \<^verbatim>\<open>done\<close> and returns.
\<close>

definition TensorToPlasma_ComputeAsync ::
    "'s Serializer \<Rightarrow> Env \<Rightarrow> Device \<Rightarrow> Tensor list \<Rightarrow> World \<Rightarrow> outcome \<times> World" where
  "TensorToPlasma_ComputeAsync ser env device inputs w =
    (if \<not> length inputs \<ge> 2
     then (Returned,
           call_done (SetStatus
             (InvalidArgument ''Input should have at least 1 tensor and 1 object_id'') w))
     else (case Put_plan inputs of
             Inl f \<Rightarrow> (Aborted f, w)
           | Inr plan \<Rightarrow> Put_store ser env device inputs plan w))"

section \<open>Get: PlasmaToTensorOp::ComputeAsync (lines 300-374)\<close>

text \<open>
  \<^verbatim>\<open>context->allocate_output(0, shape, &output_tensor)\<close>: the runtime either fails with a
  status or hands out a float tensor of that shape, \<open>sizeof(float)\<close> bytes per element.
\<close>

definition allocate_output :: "Env \<Rightarrow> int list \<Rightarrow> World \<Rightarrow> (tf_Status + byte list) \<times> World" where
  "allocate_output env shape w =
    (let w1 = log_event (Allocate_Output shape) w;
         out = replicate (sizeof_float * nat (prod_list shape)) 0
     in if allocate_output_status env shape = tf_OK
        then (Inr out, w1\<lparr>output_tensor := Some out\<rparr>)
        else (Inl (allocate_output_status env shape), w1))"

text \<open>Lines 334-372, with \<^verbatim>\<open>GOOGLE_CUDA\<close> defined.\<close>

definition Get_device :: "Env \<Rightarrow> byte list \<Rightarrow> nat \<Rightarrow> World \<Rightarrow> outcome \<times> World" where
  "Get_device env plasma_data size_in_bytes w =
    (if \<not> orig_stream_available env
     then (Returned, call_done (SetStatus (Internal ''No GPU stream available.'') w))
     else (case init_stream H2D env w of
             Inl f \<Rightarrow> (Aborted f, w)
           | Inr w1 \<Rightarrow>
     (if \<not> ThenMemcpy_ok env 0
      then (Returned,
            call_done (SetStatus (Internal ''H2D memcpy failed to be enqueued.'') w1))
      else (let w2 = enqueue H2D (Op_Memcpy_H2D plasma_data size_in_bytes) w1
            in (if \<not> ThenWaitFor_ok env
                then (Aborted (CHECK_failed ''orig_stream->ThenWaitFor(h2d_stream).ok()''), w2)
                else (Returned, enqueue H2D (Op_Execute DoneCallback) w2))))))"

text \<open>
  Lines 319-332: the size of the fetched buffer, the shape, the output allocation
  (\<^verbatim>\<open>OP_REQUIRES_OK_ASYNC\<close> sets the status, calls \<^verbatim>\<open>done\<close> and returns when it fails) and
  the copy.
\<close>

definition Get_copy :: "Env \<Rightarrow> Device \<Rightarrow> byte list \<Rightarrow> World \<Rightarrow> outcome \<times> World" where
  "Get_copy env device object_buffer w1 =
    (let size_in_bytes = length object_buffer;
         shape = [int (size_in_bytes div sizeof_float)]
     in (case allocate_output env shape w1 of
           (Inl s, w2) \<Rightarrow> (Returned, call_done (SetStatus s w2))
         | (Inr out, w2) \<Rightarrow>
             (case device of
                CPUDevice \<Rightarrow>
                  (case memcpy out 0 object_buffer size_in_bytes of
                     None \<Rightarrow> (Memory_Overrun, w2)
                   | Some out' \<Rightarrow> (Returned, call_done (w2\<lparr>output_tensor := Some out'\<rparr>)))
              | GPUDevice \<Rightarrow> Get_device env object_buffer size_in_bytes w2)))"

definition PlasmaToTensor_ComputeAsync ::
    "Env \<Rightarrow> Device \<Rightarrow> Tensor list \<Rightarrow> World \<Rightarrow> outcome \<times> World" where
  "PlasmaToTensor_ComputeAsync env device inputs w =
    (case inputs of
       [] \<Rightarrow> (Aborted (CHECK_failed ''input(0)''), w)
     | plasma_object_id # rest \<Rightarrow>
     (if NumElements plasma_object_id \<noteq> 1
      then (Aborted (CHECK_failed ''plasma_object_id.NumElements() == 1''), w)
      else (case flat_string_0 plasma_object_id of
              Inl f \<Rightarrow> (Aborted f, w)
            | Inr plasma_object_id_str \<Rightarrow>
     (let object_id = from_binary plasma_object_id_str
      in (case client_Get object_id w of
            (None, w1) \<Rightarrow> (Blocked, w1)
          | (Some (Inl e), w1) \<Rightarrow> (Aborted (ARROW_CHECK_failed e), w1)
          | (Some (Inr object_buffer), w1) \<Rightarrow> Get_copy env device object_buffer w1)))))"

section \<open>Completion of the work on a staging stream\<close>

text \<open>
  A stream completes its work in the order it was enqueued, and the event manager runs a
  callback handed to \<^verbatim>\<open>ThenExecute(stream, f)\<close> once the work enqueued on the stream before
  it has completed. Completing the head of the queue: a wait does nothing more, a copy
  lands in its destination, a callback runs.
\<close>

definition run_callback :: "callback \<Rightarrow> World \<Rightarrow> outcome \<times> World" where
  "run_callback cb w =
    (case cb of
       WrappedCallback object_id \<Rightarrow> wrapped_callback object_id w
     | DoneCallback \<Rightarrow> (Returned, call_done w))"

definition complete_op :: "stream_op \<Rightarrow> World \<Rightarrow> outcome \<times> World" where
  "complete_op sop w =
    (case sop of
       Op_WaitFor \<Rightarrow> (Returned, w)
     | Op_Memcpy_D2H object_id i pos src n \<Rightarrow> copy_to_object object_id i pos src n w
     | Op_Memcpy_H2D src n \<Rightarrow>
         (case output_tensor w of
            None \<Rightarrow> (Memory_Overrun, w)
          | Some out \<Rightarrow>
              (case memcpy out 0 src n of
                 None \<Rightarrow> (Memory_Overrun, w)
               | Some out' \<Rightarrow> (Returned, w\<lparr>output_tensor := Some out'\<rparr>)))
     | Op_Execute cb \<Rightarrow> run_callback cb w)"

text \<open>The first \<open>k\<close> completions on a stream; the run stops where the process does.\<close>

fun stream_run :: "direction \<Rightarrow> nat \<Rightarrow> World \<Rightarrow> outcome \<times> World" where
  "stream_run d 0 w = (Returned, w)"
| "stream_run d (Suc k) w =
    (case stream_of d w of
       None \<Rightarrow> (Returned, w)
     | Some [] \<Rightarrow> (Returned, w)
     | Some (sop # q) \<Rightarrow>
         (let (r, w') = complete_op sop (set_stream d (Some q) w)
          in if r = Returned then stream_run d k w' else (r, w')))"



section \<open>Concrete inputs\<close>

text \<open>
  Two float tensors of one and two elements, a string tensor that holds a 20-byte object
  identifier, a serializer whose header for an empty tensor is four bytes (and would grow
  with the payload if it were given one), a device that accepts every call, and a
  connected, empty store.
\<close>

definition example_tensor_a :: Tensor where
  "example_tensor_a =
    \<lparr>dtype = DT_FLOAT, NumElements = 1, tensor_data = [1, 2, 3, 4], flat_string = []\<rparr>"

definition example_tensor_b :: Tensor where
  "example_tensor_b =
    \<lparr>dtype = DT_FLOAT, NumElements = 2, tensor_data = [5, 6, 7, 8, 9, 10, 11, 12],
     flat_string = []\<rparr>"

definition example_tensor_double :: Tensor where
  "example_tensor_double =
    \<lparr>dtype = DT_DOUBLE, NumElements = 1, tensor_data = [5, 6, 7, 8, 9, 10, 11, 12],
     flat_string = []\<rparr>"

definition example_id_tensor :: Tensor where
  "example_id_tensor =
    \<lparr>dtype = DT_STRING, NumElements = 1, tensor_data = [],
     flat_string = [''object-id-0000000001'']\<rparr>"

definition example_serializer :: "ArrowTensor Serializer" where
  "example_serializer =
    \<lparr>SerializeTensor = (\<lambda>t. Inr t),
     WriteTo = (\<lambda>t. Inr ([170, 187, 204, 221] @ replicate (length (tensor_buffer t)) 0))\<rparr>"

definition example_env :: Env where
  "example_env =
    \<lparr>orig_stream_available = True, HostMemoryRegister_ok = True, Stream_Init_ok = True,
     ThenWaitFor_ok = True, ThenMemcpy_ok = (\<lambda>i. True),
     allocate_output_status = (\<lambda>shape. tf_OK)\<rparr>"

definition example_world :: World where
  "example_world =
    \<lparr>connected = True, store = (\<lambda>k. None), store_free = 1000, d2h_stream = None,
     h2d_stream = None, status = tf_OK, output_tensor = None, trace = []\<rparr>"

definition example_tensor_int32 :: Tensor where
  "example_tensor_int32 =
    \<lparr>dtype = DT_INT32, NumElements = 1, tensor_data = [5, 6, 7, 8], flat_string = []\<rparr>"

definition example_world_odd :: World where
  "example_world_odd =
    example_world\<lparr>store := (\<lambda>k. None)(''object-id-0000000001'' \<mapsto>
      \<lparr>object_data = [1, 2, 3, 4, 5], sealed = True\<rparr>)\<rparr>"

definition example_world_sealed :: World where
  "example_world_sealed =
    \<lparr>connected = True,
     store = (\<lambda>k. None)(''object-id-0000000001'' \<mapsto>
       \<lparr>object_data = [170, 187, 204, 221, 1, 2, 3, 4, 5, 6, 7, 8, 9, 10, 11, 12],
        sealed = True\<rparr>),
     store_free = 984, d2h_stream = None, h2d_stream = None, status = tf_OK,
     output_tensor = None,
     trace = [Header_Size arrow_float32 [3], Store_Create ''object-id-0000000001'' 16,
              Copy_Landed ''object-id-0000000001'' 0, Copy_Landed ''object-id-0000000001'' 1,
              Store_Seal ''object-id-0000000001'', Callback_Done]\<rparr>"

definition example_world_full :: World where
  "example_world_full = example_world\<lparr>store_free := 0\<rparr>"

definition example_world_enqueued :: World where
  "example_world_enqueued =
    \<lparr>connected = True,
     store = (\<lambda>k. None)(''object-id-0000000001'' \<mapsto>
       \<lparr>object_data = [170, 187, 204, 221] @ replicate 12 0, sealed = False\<rparr>),
     store_free = 984,
     d2h_stream = Some [Op_WaitFor,
                        Op_Memcpy_D2H ''object-id-0000000001'' 0 4 [1, 2, 3, 4] 4,
                        Op_Memcpy_D2H ''object-id-0000000001'' 1 8
                          [5, 6, 7, 8, 9, 10, 11, 12] 8,
                        Op_Execute (WrappedCallback ''object-id-0000000001'')],
     h2d_stream = None, status = tf_OK, output_tensor = None,
     trace = [Header_Size arrow_float32 [3], Store_Create ''object-id-0000000001'' 16]\<rparr>"

definition example_world_completed :: World where
  "example_world_completed = example_world_sealed\<lparr>d2h_stream := Some []\<rparr>"


section \<open>Auxiliary notions for the proofs\<close>

text \<open>The running totals that the offset loop pushes, starting from a total \<open>tot\<close>.\<close>

definition prefix_sums :: "nat \<Rightarrow> Tensor list \<Rightarrow> nat list" where
  "prefix_sums tot ts =
    map (\<lambda>k. tot + sum_list (map TotalBytes (take (Suc k) ts))) [0..<length ts]"

text \<open>
  The completion callback: how often \<^verbatim>\<open>done()\<close> has been called, how many callbacks
  handed to \<^verbatim>\<open>ThenExecute\<close> wait on the two staging streams, and the sum of both.
\<close>

definition done_calls :: "World \<Rightarrow> nat" where
  "done_calls w = count_list (trace w) Callback_Done"

definition is_Execute :: "stream_op \<Rightarrow> bool" where
  "is_Execute sop = (case sop of Op_Execute cb \<Rightarrow> True | _ \<Rightarrow> False)"

definition pending :: "stream_op list option \<Rightarrow> nat" where
  "pending q = (case q of None \<Rightarrow> 0 | Some ops \<Rightarrow> length (filter is_Execute ops))"

definition scheduled_callbacks :: "World \<Rightarrow> nat" where
  "scheduled_callbacks w = pending (d2h_stream w) + pending (h2d_stream w)"

definition completions :: "World \<Rightarrow> nat" where
  "completions w = done_calls w + scheduled_callbacks w"














section \<open>The offset table\<close>

lemma prefix_sums_Cons:
  "prefix_sums tot (t # ts) = (tot + TotalBytes t) # prefix_sums (tot + TotalBytes t) ts"
  unfolding prefix_sums_def
  by (simp add: map_upt_Suc add.assoc del: upt_Suc)

lemma length_prefix_sums: "length (prefix_sums tot ts) = length ts"
  by (simp add: prefix_sums_def)

lemma nth_prefix_sums:
  "k \<le> length ts \<Longrightarrow>
   (tot # prefix_sums tot ts) ! k = tot + sum_list (map TotalBytes (take k ts))"
  by (cases k) (simp_all add: prefix_sums_def)

lemma sorted_prefix_sums:
  "list_all (\<lambda>t. 0 < TotalBytes t) ts \<Longrightarrow> sorted_wrt (<) (tot # prefix_sums tot ts)"
proof (induction ts arbitrary: tot)
  case Nil
  then show ?case by (simp add: prefix_sums_def)
next
  case (Cons t ts)
  then have "sorted_wrt (<) ((tot + TotalBytes t) # prefix_sums (tot + TotalBytes t) ts)"
    by simp
  moreover from Cons.prems have "tot < tot + TotalBytes t" by simp
  ultimately show ?case
    unfolding prefix_sums_Cons by (simp only: sorted_wrt2 [OF transp_on_less])
qed

text \<open>One round of the loop: both checks pass and the loop goes on with the new total.\<close>

lemma offsets_loop_Cons_Inr:
  "offsets_loop (t # ts) offs tot = Inr r \<longleftrightarrow>
     (TotalBytes t = size_t_mul (NumElements t) sizeof_float \<and> 0 < TotalBytes t \<and>
      offsets_loop ts (offs @ [size_t_add tot (TotalBytes t)]) (size_t_add tot (TotalBytes t))
        = Inr r)"
  by (simp add: Let_def)

lemma offsets_loop_Inr:
  "offsets_loop ts offs tot = Inr (offs', tot') \<Longrightarrow>
   tot + sum_list (map TotalBytes ts) < 2 ^ 64 \<Longrightarrow>
   offs' = offs @ prefix_sums tot ts \<and> tot' = tot + sum_list (map TotalBytes ts)"
proof (induction ts arbitrary: offs tot)
  case Nil
  then show ?case by (simp add: prefix_sums_def)
next
  case (Cons t ts)
  let ?s = "TotalBytes t"
  from Cons.prems(2) have fit: "tot + ?s < 2 ^ 64" by simp
  then have wrap: "size_t_add tot ?s = tot + ?s" by (simp add: size_t_add_def)
  from Cons.prems(1)
  have "offsets_loop ts (offs @ [size_t_add tot ?s]) (size_t_add tot ?s) = Inr (offs', tot')"
    by (rule offsets_loop_Cons_Inr [THEN iffD1, THEN conjunct2, THEN conjunct2])
  then have rec: "offsets_loop ts (offs @ [tot + ?s]) (tot + ?s) = Inr (offs', tot')"
    by (simp only: wrap)
  from Cons.prems(2) have "(tot + ?s) + sum_list (map TotalBytes ts) < 2 ^ 64" by simp
  from Cons.IH [OF rec this] show ?case
    by (simp add: prefix_sums_Cons)
qed

lemma offsets_loop_checks:
  "offsets_loop ts offs tot = Inr r \<Longrightarrow>
   list_all (\<lambda>t. TotalBytes t = size_t_mul (NumElements t) sizeof_float) ts \<and>
   list_all (\<lambda>t. 0 < TotalBytes t) ts"
proof (induction ts arbitrary: offs tot)
  case Nil
  show ?case by simp
next
  case (Cons t ts)
  from Cons.prems
  have head: "TotalBytes t = size_t_mul (NumElements t) sizeof_float" "0 < TotalBytes t"
    and rest: "offsets_loop ts (offs @ [size_t_add tot (TotalBytes t)])
                 (size_t_add tot (TotalBytes t)) = Inr r"
    unfolding offsets_loop_Cons_Inr by blast+
  from Cons.IH [OF rest] head show ?case
    by (simp only: list.pred_inject simp_thms)
qed

text \<open>
  C6. For a Put over the tensors \<open>tensors\<close> (the inputs but the last), when the offset loop
  runs to its end (no fatal size check) and the byte sizes add up to less than \<open>2 ^ 64\<close>,
  as the sizes of buffers in one address space do: the table has one entry more than there
  are tensors, its first entry is 0, each further entry is the one before plus the byte
  size of the tensor before, the table is non-decreasing, and its last entry, which is
  also \<open>total_bytes\<close>, is the sum of the byte sizes.
\<close>

theorem offset_table_prefix_sums:
  assumes ok: "compute_offsets tensors = Inr (offsets, total_bytes)"
      and fit: "sum_list (map TotalBytes tensors) < 2 ^ 64"
  shows "length offsets = length tensors + 1 \<and>
         offsets ! 0 = 0 \<and>
         (\<forall>k. 1 \<le> k \<and> k \<le> length tensors \<longrightarrow>
               offsets ! k = offsets ! (k - 1) + TotalBytes (tensors ! (k - 1))) \<and>
         sorted offsets \<and>
         offsets ! length tensors = sum_list (map TotalBytes tensors) \<and>
         total_bytes = sum_list (map TotalBytes tensors)"
proof -
  from ok fit have closed: "offsets = 0 # prefix_sums 0 tensors"
    and total: "total_bytes = sum_list (map TotalBytes tensors)"
    using offsets_loop_Inr [of tensors "[0]" 0 offsets total_bytes]
    by (simp_all add: compute_offsets_def)
  have len: "length offsets = length tensors + 1"
    by (simp add: closed length_prefix_sums)
  have nth: "offsets ! k = sum_list (map TotalBytes (take k tensors))"
    if "k \<le> length tensors" for k
    using nth_prefix_sums [OF that, of 0] by (simp add: closed)
  have step: "offsets ! k = offsets ! (k - 1) + TotalBytes (tensors ! (k - 1))"
    if "1 \<le> k" "k \<le> length tensors" for k
  proof -
    from that obtain j where k: "k = Suc j" and j: "j < length tensors"
      by (cases k) auto
    show ?thesis
      using nth [of k] nth [of j] that j
      by (simp add: k take_Suc_conv_app_nth)
  qed
  have pos: "list_all (\<lambda>t. 0 < TotalBytes t) tensors"
    using offsets_loop_checks [of tensors "[0]" 0 "(offsets, total_bytes)"] ok
    by (simp add: compute_offsets_def)
  have "sorted_wrt (<) offsets"
    unfolding closed by (rule sorted_prefix_sums [OF pos])
  then have srt: "sorted offsets"
    by (rule strict_sorted_imp_sorted)
  show ?thesis
    using len nth [of 0] nth [of "length tensors"] step srt total by simp
qed

theorem offset_table_prefix_sums_witness:
  "compute_offsets [example_tensor_a, example_tensor_b] = Inr ([0, 4, 12], 12) \<and>
   sum_list (map TotalBytes [example_tensor_a, example_tensor_b]) < 2 ^ 64 \<and>
   length [0, 4, 12 :: nat] = length [example_tensor_a, example_tensor_b] + 1 \<and>
   sorted [0, 4, 12 :: nat] \<and>
   [0, 4, 12] ! length [example_tensor_a, example_tensor_b]
     = sum_list (map TotalBytes [example_tensor_a, example_tensor_b])"
proof -
  have ok: "compute_offsets [example_tensor_a, example_tensor_b] = Inr ([0, 4, 12], 12)"
    by (simp add: compute_offsets_def example_tensor_a_def example_tensor_b_def TotalBytes_def
        size_t_mul_def size_t_add_def sizeof_float_def)
  have fit: "sum_list (map TotalBytes [example_tensor_a, example_tensor_b]) < 2 ^ 64"
    by (simp add: example_tensor_a_def example_tensor_b_def TotalBytes_def)
  from offset_table_prefix_sums [OF ok fit] ok fit show ?thesis
    by blast
qed

section \<open>Evaluation of the concrete inputs\<close>

lemmas example_defs = example_tensor_a_def example_tensor_b_def example_tensor_double_def
  example_tensor_int32_def example_id_tensor_def example_serializer_def example_env_def
  example_world_def

lemmas plan_defs = Put_plan_def compute_offsets_def TotalBytes_def size_t_mul_def size_t_add_def
  sizeof_float_def to_int64_def flat_string_0_def from_binary_def Let_def


section \<open>Put: the arity check\<close>

text \<open>
  C4. A Put whose inputs hold no tensor (at most the object identifier) returns with the
  status \<^verbatim>\<open>InvalidArgument\<close>: the only call it makes is \<^verbatim>\<open>done()\<close>, so no call reaches the
  store client and the store is as it was.
\<close>

theorem put_without_tensors_invalid_argument:
  assumes "length inputs \<le> 1"
  shows "fst (TensorToPlasma_ComputeAsync ser env device inputs w) = Returned \<and>
         status (snd (TensorToPlasma_ComputeAsync ser env device inputs w))
           = InvalidArgument ''Input should have at least 1 tensor and 1 object_id'' \<and>
         trace (snd (TensorToPlasma_ComputeAsync ser env device inputs w))
           = trace w @ [Callback_Done] \<and>
         store (snd (TensorToPlasma_ComputeAsync ser env device inputs w)) = store w \<and>
         store_free (snd (TensorToPlasma_ComputeAsync ser env device inputs w)) = store_free w"
  using assms
  by (simp add: TensorToPlasma_ComputeAsync_def call_done_def SetStatus_def log_event_def)

theorem put_without_tensors_invalid_argument_witness:
  "length [example_id_tensor] \<le> 1 \<and>
   fst (TensorToPlasma_ComputeAsync example_serializer example_env CPUDevice
          [example_id_tensor] example_world) = Returned \<and>
   status (snd (TensorToPlasma_ComputeAsync example_serializer example_env CPUDevice
          [example_id_tensor] example_world))
     = InvalidArgument ''Input should have at least 1 tensor and 1 object_id'' \<and>
   trace (snd (TensorToPlasma_ComputeAsync example_serializer example_env CPUDevice
          [example_id_tensor] example_world)) = [Callback_Done]"
proof -
  have h: "length [example_id_tensor] \<le> 1" by simp
  from put_without_tensors_invalid_argument [OF h, of example_serializer example_env CPUDevice
      example_world]
  show ?thesis by (simp add: example_world_def)
qed


section \<open>Put: the validation steps before the store\<close>

lemma offsets_loop_Inl:
  "offsets_loop ts offs tot = Inl f \<Longrightarrow>
   f = CHECK_failed ''s == NumElements * sizeof(float)'' \<or> f = CHECK_failed ''s > 0''"
  by (induction ts arbitrary: offs tot) (auto simp: Let_def split: if_splits)

lemma check_dtypes_Inl:
  "check_dtypes d ts = Inl f \<Longrightarrow> f = ARROW_CHECK_failed TypeError"
  by (induction ts) (auto split: if_splits)

lemma check_dtypes_mismatch:
  "t \<in> set ts \<Longrightarrow> dtype t \<noteq> d \<Longrightarrow> check_dtypes d ts = Inl (ARROW_CHECK_failed TypeError)"
  by (induction ts) auto

lemma check_dtypes_Inr:
  "check_dtypes d ts = Inr u \<longleftrightarrow> list_all (\<lambda>t. dtype t = d) ts"
  by (induction ts) auto


lemma Put_plan_mismatch:
  assumes len: "2 \<le> length inputs"
      and i: "i < length inputs - 1"
      and diff: "dtype (inputs ! i) \<noteq> dtype (inputs ! 0)"
  shows "\<exists>f. Put_plan inputs = Inl f \<and>
             (f = ARROW_CHECK_failed TypeError \<or>
              f = CHECK_failed ''s == NumElements * sizeof(float)'' \<or>
              f = CHECK_failed ''s > 0'') \<and>
             ((\<exists>r. compute_offsets (take (length inputs - 1) inputs) = Inr r)
                = (f = ARROW_CHECK_failed TypeError))"
proof -
  let ?n = "length inputs - 1"
  from diff have "i \<noteq> 0" by (cases i) auto
  then obtain j where j: "i = Suc j" by (cases i) auto
  from i j have "inputs ! i = drop 1 (take ?n inputs) ! j" "j < length (drop 1 (take ?n inputs))"
    by auto
  then have mem: "inputs ! i \<in> set (drop 1 (take ?n inputs))"
    by (metis nth_mem)
  have bad: "check_dtypes (dtype (inputs ! 0)) (drop 1 (take ?n inputs))
               = Inl (ARROW_CHECK_failed TypeError)"
    by (rule check_dtypes_mismatch [OF mem diff])
  show ?thesis
  proof (cases "compute_offsets (take ?n inputs)")
    case (Inl f)
    then have "f = CHECK_failed ''s == NumElements * sizeof(float)'' \<or> f = CHECK_failed ''s > 0''"
      unfolding compute_offsets_def by (rule offsets_loop_Inl)
    with Inl show ?thesis
      by (auto simp: Put_plan_def Let_def)
  next
    case (Inr r)
    with bad show ?thesis
      by (auto simp: Put_plan_def Let_def split: prod.splits)
  qed
qed


text \<open>
  C5, as amended. A Put with at least one tensor whose tensors do not all have the
  element type of the first ends in a fatal check with the world as it was (no call has
  reached the store client): the check is the \<^verbatim>\<open>TypeError\<close> of the element type loop
  exactly when every tensor passes the two size checks of the offset loop, which runs
  first, and otherwise it is the size check that failed.
\<close>

theorem put_mixed_dtypes_fatal_before_store:
  assumes len: "2 \<le> length inputs"
      and i: "i < length inputs - 1"
      and diff: "dtype (inputs ! i) \<noteq> dtype (inputs ! 0)"
  shows "\<exists>f. TensorToPlasma_ComputeAsync ser env device inputs w = (Aborted f, w) \<and>
             (f = ARROW_CHECK_failed TypeError \<or>
              f = CHECK_failed ''s == NumElements * sizeof(float)'' \<or>
              f = CHECK_failed ''s > 0'') \<and>
             ((\<exists>r. compute_offsets (take (length inputs - 1) inputs) = Inr r)
                = (f = ARROW_CHECK_failed TypeError))"
proof -
  from Put_plan_mismatch [OF len i diff] obtain f where
    "Put_plan inputs = Inl f"
    "f = ARROW_CHECK_failed TypeError \<or> f = CHECK_failed ''s == NumElements * sizeof(float)'' \<or>
     f = CHECK_failed ''s > 0''"
    "(\<exists>r. compute_offsets (take (length inputs - 1) inputs) = Inr r)
       = (f = ARROW_CHECK_failed TypeError)"
    by blast
  with len show ?thesis
    by (simp add: TensorToPlasma_ComputeAsync_def)
qed

theorem put_mixed_dtypes_fatal_before_store_witness:
  "2 \<le> length [example_tensor_a, example_tensor_int32, example_id_tensor] \<and>
   1 < length [example_tensor_a, example_tensor_int32, example_id_tensor] - 1 \<and>
   dtype ([example_tensor_a, example_tensor_int32, example_id_tensor] ! 1)
     \<noteq> dtype ([example_tensor_a, example_tensor_int32, example_id_tensor] ! 0) \<and>
   TensorToPlasma_ComputeAsync example_serializer example_env CPUDevice
       [example_tensor_a, example_tensor_int32, example_id_tensor] example_world
     = (Aborted (ARROW_CHECK_failed TypeError), example_world)"
proof -
  let ?ins = "[example_tensor_a, example_tensor_int32, example_id_tensor]"
  have len: "2 \<le> length ?ins" by simp
  have i: "1 < length ?ins - 1" by simp
  have diff: "dtype (?ins ! 1) \<noteq> dtype (?ins ! 0)" by (simp add: example_defs)
  have sizes: "compute_offsets (take (length ?ins - 1) ?ins) = Inr ([0, 4, 8], 8)"
    by (simp add: example_defs plan_defs)
  from put_mixed_dtypes_fatal_before_store [OF len i diff, of example_serializer example_env
      CPUDevice example_world] sizes
  have "TensorToPlasma_ComputeAsync example_serializer example_env CPUDevice ?ins example_world
          = (Aborted (ARROW_CHECK_failed TypeError), example_world)"
    by auto
  with len i diff show ?thesis by blast
qed


text \<open>
  The claim as stated fails: a float tensor next to a double tensor of one element (eight
  bytes) ends in the fatal size check \<^verbatim>\<open>CHECK_EQ(s, NumElements * sizeof(float))\<close> of the
  offset loop, not in \<^verbatim>\<open>TypeError\<close>.
\<close>

theorem put_mixed_dtypes_counterexample:
  "dtype ([example_tensor_a, example_tensor_double, example_id_tensor] ! 1)
     \<noteq> dtype ([example_tensor_a, example_tensor_double, example_id_tensor] ! 0) \<and>
   TensorToPlasma_ComputeAsync example_serializer example_env CPUDevice
       [example_tensor_a, example_tensor_double, example_id_tensor] example_world
     = (Aborted (CHECK_failed ''s == NumElements * sizeof(float)''), example_world) \<and>
   CHECK_failed ''s == NumElements * sizeof(float)'' \<noteq> ARROW_CHECK_failed TypeError"
  by (simp add: TensorToPlasma_ComputeAsync_def example_defs plan_defs)

section \<open>The calls made so far only grow\<close>

lemmas prim_defs = log_event_def SetStatus_def call_done_def set_stream_def stream_of_def
  enqueue_def

lemma trace_set_object_data [simp]: "trace (set_object_data object_id d w) = trace w"
  by (simp add: set_object_data_def split: option.splits)

lemma trace_enqueue [simp]: "trace (enqueue d sop w) = trace w"
  by (simp add: prim_defs split: direction.splits)

lemma trace_copy_to_object:
  "copy_to_object object_id i pos src n w = (r, w') \<Longrightarrow> prefix (trace w) (trace w')"
  by (auto simp: copy_to_object_def prim_defs split: option.splits)

lemma trace_host_copy_loop:
  "host_copy_loop inputs offsets object_id data is w = (r, w') \<Longrightarrow> prefix (trace w) (trace w')"
proof (induction "is" arbitrary: w)
  case Nil
  then show ?case by simp
next
  case (Cons i rest)
  show ?case
  proof (cases "flat_float_data (inputs ! i)")
    case (Inl f)
    with Cons.prems show ?thesis by simp
  next
    case (Inr src)
    obtain r1 w1 where c: "copy_to_object object_id i
        (data + sizeof_float * (offsets ! i div sizeof_float)) src
        (size_t_sub (offsets ! (i + 1)) (offsets ! i)) w = (r1, w1)"
      by (cases "copy_to_object object_id i
        (data + sizeof_float * (offsets ! i div sizeof_float)) src
        (size_t_sub (offsets ! (i + 1)) (offsets ! i)) w") 
    from trace_copy_to_object [OF c] have p1: "prefix (trace w) (trace w1)" .
    show ?thesis
    proof (cases "r1 = Returned")
      case True
      with Cons.prems Inr c have "host_copy_loop inputs offsets object_id data rest w1 = (r, w')"
        by simp
      from Cons.IH [OF this] p1 show ?thesis by (rule prefix_order.trans [rotated])
    next
      case False
      with Cons.prems Inr c have "w' = w1" by simp
      with p1 show ?thesis by simp
    qed
  qed
qed

lemma trace_wrapped_callback:
  "wrapped_callback object_id w = (r, w') \<Longrightarrow> prefix (trace w) (trace w')"
  by (auto simp: wrapped_callback_def client_Seal_def prim_defs Let_def
      split: option.splits if_splits)

lemma trace_init_stream:
  "init_stream d env w = Inr w1 \<Longrightarrow> trace w1 = trace w"
  by (auto simp: init_stream_def prim_defs split: option.splits if_splits direction.splits)

lemma trace_device_enqueue_loop:
  "device_enqueue_loop env inputs offsets object_id data is w = (r, w') \<Longrightarrow> trace w' = trace w"
  by (induction "is" arbitrary: w) (auto split: sum.splits if_splits)

lemma trace_Put_device:
  "Put_device env inputs offsets object_id data n w = (r, w') \<Longrightarrow> prefix (trace w) (trace w')"
  unfolding Put_device_def
  by (auto simp: prim_defs dest!: trace_init_stream trace_device_enqueue_loop
      split: sum.splits if_splits prod.splits direction.splits)


section \<open>Put: the header request and the size of the store object\<close>


lemma trace_Put_store_tail:
  assumes run: "Put_store ser env device inputs plan w = (r, w')"
      and hs: "TensorFlowTensorGetHeaderSize ser (plan_arrow_dtype plan) (plan_shape plan)
                 = Inr header_size"
  shows "prefix (trace w @ [Header_Size (plan_arrow_dtype plan) (plan_shape plan),
                            Store_Create (plan_object_id plan)
                              (int64_add header_size (to_int64 (plan_total_bytes plan)))])
                (trace w')"
proof -
  let ?w1 = "log_event (Header_Size (plan_arrow_dtype plan) (plan_shape plan)) w"
  let ?sz = "int64_add header_size (to_int64 (plan_total_bytes plan))"
  let ?goal = "trace w @ [Header_Size (plan_arrow_dtype plan) (plan_shape plan),
                 Store_Create (plan_object_id plan) ?sz]"
  obtain c w2 where cr: "client_Create (plan_object_id plan) ?sz ?w1 = (c, w2)"
    by (cases "client_Create (plan_object_id plan) ?sz ?w1")
  then have t2: "trace w2 = ?goal"
    by (auto simp: client_Create_def prim_defs Let_def split: if_splits)
  show ?thesis
  proof (cases c)
    case (Inl e)
    with run hs cr have "w' = w2" by (simp add: Put_store_def Let_def)
    with t2 show ?thesis by simp
  next
    case (Inr data_buffer)
    show ?thesis
    proof (cases "TensorFlowTensorWrite ser (plan_arrow_dtype plan) (plan_shape plan) data_buffer")
      case None
      with run hs cr Inr have "w' = w2" by (simp add: Put_store_def Let_def)
      with t2 show ?thesis by simp
    next
      case (Some res)
      show ?thesis
      proof (cases res)
        case (Inl e)
        with run hs cr Inr Some have "w' = w2" by (simp add: Put_store_def Let_def)
        with t2 show ?thesis by simp
      next
        case (Inr bo)
        obtain buffer' offset where bo: "bo = (buffer', offset)" by (cases bo)
        let ?w3 = "set_object_data (plan_object_id plan) buffer' w2"
        have t3: "trace ?w3 = ?goal" using t2 by simp
        show ?thesis
        proof (cases device)
          case CPUDevice
          obtain r4 w4 where loop: "host_copy_loop inputs (plan_offsets plan)
              (plan_object_id plan) (nat offset) [0..<length inputs - 1] ?w3 = (r4, w4)"
            by (cases "host_copy_loop inputs (plan_offsets plan)
              (plan_object_id plan) (nat offset) [0..<length inputs - 1] ?w3")
          from trace_host_copy_loop [OF loop] t3 have p4: "prefix ?goal (trace w4)" by simp
          show ?thesis
          proof (cases "r4 = Returned")
            case True
            with run hs cr \<open>c = Inr data_buffer\<close> Some Inr bo CPUDevice loop
            have "wrapped_callback (plan_object_id plan) w4 = (r, w')"
              by (simp add: Put_store_def Let_def)
            from trace_wrapped_callback [OF this] p4 show ?thesis
              by (rule prefix_order.trans [rotated])
          next
            case False
            with run hs cr \<open>c = Inr data_buffer\<close> Some Inr bo CPUDevice loop
            have "w' = w4" by (simp add: Put_store_def Let_def)
            with p4 show ?thesis by simp
          qed
        next
          case GPUDevice
          with run hs cr \<open>c = Inr data_buffer\<close> Some Inr bo
          have "Put_device env inputs (plan_offsets plan) (plan_object_id plan) (nat offset)
                  (length inputs - 1) ?w3 = (r, w')"
            by (simp add: Put_store_def Let_def)
          from trace_Put_device [OF this] t3 show ?thesis by simp
        qed
      qed
    qed
  qed
qed

lemmas run_defs = TensorToPlasma_ComputeAsync_def Put_store_def PlasmaToTensor_ComputeAsync_def
  Get_copy_def allocate_output_def int64_add_def
  flat_float_data_def size_t_sub_def TensorFlowTensorGetHeaderSize_def
  TensorFlowTensorWrite_def MockOutputStream_Write_def FixedSizeBufferWriter_Write_def
  client_Create_def client_Seal_def client_Get_def
  memcpy_def copy_to_object_def set_object_data_def wrapped_callback_def


lemma example_put_host:
  "TensorToPlasma_ComputeAsync example_serializer example_env CPUDevice
     [example_tensor_a, example_tensor_b, example_id_tensor] example_world =
   (Returned,
    \<lparr>connected = True,
     store = (\<lambda>k. None)(''object-id-0000000001'' \<mapsto>
       \<lparr>object_data = [170, 187, 204, 221, 1, 2, 3, 4, 5, 6, 7, 8, 9, 10, 11, 12],
        sealed = True\<rparr>),
     store_free = 984, d2h_stream = None, h2d_stream = None, status = tf_OK,
     output_tensor = None,
     trace = [Header_Size arrow_float32 [3], Store_Create ''object-id-0000000001'' 16,
              Copy_Landed ''object-id-0000000001'' 0, Copy_Landed ''object-id-0000000001'' 1,
              Store_Seal ''object-id-0000000001'', Callback_Done]\<rparr>)"
  by (simp add: example_defs plan_defs run_defs prim_defs upt_conv_Cons)

section \<open>The header helpers agree\<close>

text \<open>
  C10. For an element type and a shape that the serializer accepts (the header size is
  returned), and a buffer of \<open>header_size + payload_bytes\<close> bytes: the header write
  succeeds, the offset it reports is the header size, the buffer keeps its length, and the
  bytes from that offset on (the payload region) are untouched.
\<close>

theorem header_offset_equals_header_size:
  assumes size: "TensorFlowTensorGetHeaderSize ser arrow_dtype shape = Inr header_size"
      and room: "int (length buffer0) = header_size + payload_bytes"
      and payload: "0 \<le> payload_bytes"
  shows "\<exists>buffer'. TensorFlowTensorWrite ser arrow_dtype shape buffer0
                     = Some (Inr (buffer', header_size)) \<and>
                   length buffer' = length buffer0 \<and>
                   drop (nat header_size) buffer' = drop (nat header_size) buffer0"
proof -
  let ?t = "\<lparr>tensor_type = arrow_dtype, tensor_buffer = [], tensor_shape = shape\<rparr>"
  from size obtain s where ser: "SerializeTensor ser ?t = Inr s"
    by (auto simp: TensorFlowTensorGetHeaderSize_def split: sum.splits)
  with size obtain bytes where wr: "WriteTo ser s = Inr bytes"
    and h: "header_size = int (length bytes)"
    by (auto simp: TensorFlowTensorGetHeaderSize_def MockOutputStream_Write_def split: sum.splits)
  from room payload h have fits: "length bytes \<le> length buffer0" by simp
  show ?thesis
    using ser wr fits h
    by (simp add: TensorFlowTensorWrite_def FixedSizeBufferWriter_Write_def)
qed

theorem header_offset_equals_header_size_witness:
  "TensorFlowTensorGetHeaderSize example_serializer arrow_float32 [3] = Inr 4 \<and>
   int (length (replicate 16 (0 :: byte))) = 4 + 12 \<and> (0 :: int) \<le> 12 \<and>
   (\<exists>buffer'. TensorFlowTensorWrite example_serializer arrow_float32 [3] (replicate 16 0)
                 = Some (Inr (buffer', 4)) \<and>
               length buffer' = length (replicate 16 (0 :: byte)) \<and>
               drop (nat 4) buffer' = drop (nat 4) (replicate 16 0))"
proof -
  have size: "TensorFlowTensorGetHeaderSize example_serializer arrow_float32 [3] = Inr 4"
    by (simp add: TensorFlowTensorGetHeaderSize_def example_serializer_def
        MockOutputStream_Write_def)
  have room: "int (length (replicate 16 (0 :: byte))) = 4 + 12" by simp
  have payload: "(0 :: int) \<le> 12" by simp
  from header_offset_equals_header_size [OF size room payload] size room payload
  show ?thesis by blast
qed

section \<open>Get: the shape of the output\<close>

lemma Get_device_trace_status:
  "Get_device env plasma_data n w = (r, w') \<Longrightarrow>
   prefix (trace w) (trace w') \<and>
   (status w' = status w \<or> status w' = Internal ''No GPU stream available.'' \<or>
    status w' = Internal ''H2D memcpy failed to be enqueued.'')"
  unfolding Get_device_def
  by (auto simp: prim_defs init_stream_def Let_def
      split: sum.splits if_splits option.splits direction.splits)

lemma Get_copy_trace_status:
  assumes "Get_copy env device object_buffer w = (r, w')"
  shows "prefix (trace w @ [Allocate_Output [int (length object_buffer div sizeof_float)]])
           (trace w') \<and>
         (status w' = status w \<or>
          status w' = allocate_output_status env [int (length object_buffer div sizeof_float)] \<or>
          status w' = Internal ''No GPU stream available.'' \<or>
          status w' = Internal ''H2D memcpy failed to be enqueued.'')"
proof -
  let ?shape = "[int (length object_buffer div sizeof_float)]"
  obtain a w2 where al: "allocate_output env ?shape w = (a, w2)"
    by (cases "allocate_output env ?shape w")
  then have t2: "trace w2 = trace w @ [Allocate_Output ?shape]" and s2: "status w2 = status w"
    by (auto simp: allocate_output_def prim_defs Let_def split: if_splits)
  show ?thesis
  proof (cases a)
    case (Inl s)
    with al have "s = allocate_output_status env ?shape"
      by (auto simp: allocate_output_def Let_def split: if_splits)
    with assms al Inl t2 show ?thesis
      by (auto simp: Get_copy_def Let_def prim_defs)
  next
    case (Inr out)
    show ?thesis
    proof (cases device)
      case CPUDevice
      with assms al Inr t2 s2 show ?thesis
        by (auto simp: Get_copy_def Let_def prim_defs split: option.splits)
    next
      case GPUDevice
      with assms al Inr have "Get_device env object_buffer (length object_buffer) w2 = (r, w')"
        by (simp add: Get_copy_def Let_def)
      from Get_device_trace_status [OF this] t2 s2 show ?thesis by auto
    qed
  qed
qed

lemma Get_copy_host_divisible:
  assumes "sizeof_float dvd length object_buffer"
      and "allocate_output_status env [int (length object_buffer div sizeof_float)] = tf_OK"
  shows "fst (Get_copy env CPUDevice object_buffer w) = Returned \<and>
         output_tensor (snd (Get_copy env CPUDevice object_buffer w)) = Some object_buffer"
  using assms
  by (auto simp: Get_copy_def allocate_output_def memcpy_def Let_def prim_defs)

text \<open>
  What Get does with the size of the fetched buffer, for every size: right after the fetch
  it requests the allocation of the one-dimensional shape
  \<open>[size_in_bytes div sizeof(float)]\<close>, the quotient rounded down. Its status afterwards
  is the status before, the allocation's own status, or one of the two \<^verbatim>\<open>Internal\<close>
  statuses of the device path. When the size is a multiple of \<^verbatim>\<open>sizeof(float)\<close>, on the
  host and with the allocation granted, Get returns and the output tensor holds exactly the
  fetched bytes.
\<close>

lemma get_shape_is_truncated_quotient:
  assumes ins: "inputs = plasma_object_id # rest"
      and one: "NumElements plasma_object_id = 1"
      and name: "flat_string_0 plasma_object_id = Inr s"
      and fetch: "client_Get (from_binary s) w = (Some (Inr object_buffer), w1)"
  shows "prefix (trace w @ [Store_Get (from_binary s),
                            Allocate_Output [int (length object_buffer div sizeof_float)]])
           (trace (snd (PlasmaToTensor_ComputeAsync env device inputs w))) \<and>
         (status (snd (PlasmaToTensor_ComputeAsync env device inputs w)) = status w \<or>
          status (snd (PlasmaToTensor_ComputeAsync env device inputs w))
            = allocate_output_status env [int (length object_buffer div sizeof_float)] \<or>
          status (snd (PlasmaToTensor_ComputeAsync env device inputs w))
            = Internal ''No GPU stream available.'' \<or>
          status (snd (PlasmaToTensor_ComputeAsync env device inputs w))
            = Internal ''H2D memcpy failed to be enqueued.'') \<and>
         (sizeof_float dvd length object_buffer \<and> device = CPUDevice \<and>
          allocate_output_status env [int (length object_buffer div sizeof_float)] = tf_OK
          \<longrightarrow> fst (PlasmaToTensor_ComputeAsync env device inputs w) = Returned \<and>
              output_tensor (snd (PlasmaToTensor_ComputeAsync env device inputs w))
                = Some object_buffer \<and>
              length object_buffer = sizeof_float * (length object_buffer div sizeof_float))"
proof -
  from fetch have t1: "trace w1 = trace w @ [Store_Get (from_binary s)]"
    and s1: "status w1 = status w"
    by (auto simp: client_Get_def prim_defs Let_def split: if_splits option.splits)
  have run: "PlasmaToTensor_ComputeAsync env device inputs w
               = Get_copy env device object_buffer w1"
    using ins one name fetch by (simp add: PlasmaToTensor_ComputeAsync_def Let_def)
  obtain r w' where gc: "Get_copy env device object_buffer w1 = (r, w')"
    by (cases "Get_copy env device object_buffer w1")
  from Get_copy_trace_status [OF gc] t1 s1 gc run
  have part1: "prefix (trace w @ [Store_Get (from_binary s),
                            Allocate_Output [int (length object_buffer div sizeof_float)]])
           (trace (snd (PlasmaToTensor_ComputeAsync env device inputs w)))"
    and part2: "status (snd (PlasmaToTensor_ComputeAsync env device inputs w)) = status w \<or>
          status (snd (PlasmaToTensor_ComputeAsync env device inputs w))
            = allocate_output_status env [int (length object_buffer div sizeof_float)] \<or>
          status (snd (PlasmaToTensor_ComputeAsync env device inputs w))
            = Internal ''No GPU stream available.'' \<or>
          status (snd (PlasmaToTensor_ComputeAsync env device inputs w))
            = Internal ''H2D memcpy failed to be enqueued.''"
    by auto
  have part3: "fst (PlasmaToTensor_ComputeAsync env device inputs w) = Returned \<and>
              output_tensor (snd (PlasmaToTensor_ComputeAsync env device inputs w))
                = Some object_buffer \<and>
              length object_buffer = sizeof_float * (length object_buffer div sizeof_float)"
    if "sizeof_float dvd length object_buffer" "device = CPUDevice"
       "allocate_output_status env [int (length object_buffer div sizeof_float)] = tf_OK"
    using Get_copy_host_divisible [OF that(1) that(3), of w1] that run by simp
  from part1 part2 part3 show ?thesis by blast
qed

lemma example_get_host:
  "PlasmaToTensor_ComputeAsync example_env CPUDevice [example_id_tensor] example_world_sealed
     = (Returned,
        example_world_sealed\<lparr>
          output_tensor :=
            Some [170, 187, 204, 221, 1, 2, 3, 4, 5, 6, 7, 8, 9, 10, 11, 12],
          trace := trace example_world_sealed
            @ [Store_Get ''object-id-0000000001'', Allocate_Output [4], Callback_Done]\<rparr>)"
  by (simp add: example_world_sealed_def example_defs plan_defs run_defs prim_defs)

section \<open>Put followed by Get\<close>

text \<open>
  C1 at a concrete input. Two float tensors of four and eight bytes are put under one
  identifier on the host; the header of the example serializer is four bytes. The
  sealed object holds the header followed by the twelve payload bytes, and Get on the same
  identifier returns all sixteen bytes as a tensor of four floats: the header comes back
  in front of the concatenation of the inputs.
\<close>

theorem put_then_get_returns_header_before_payload:
  "TensorToPlasma_ComputeAsync example_serializer example_env CPUDevice
     [example_tensor_a, example_tensor_b, example_id_tensor] example_world
     = (Returned, example_world_sealed) \<and>
   fst (PlasmaToTensor_ComputeAsync example_env CPUDevice [example_id_tensor]
          example_world_sealed) = Returned \<and>
   output_tensor (snd (PlasmaToTensor_ComputeAsync example_env CPUDevice [example_id_tensor]
          example_world_sealed))
     = Some ([170, 187, 204, 221] @ tensor_data example_tensor_a @ tensor_data example_tensor_b) \<and>
   output_tensor (snd (PlasmaToTensor_ComputeAsync example_env CPUDevice [example_id_tensor]
          example_world_sealed))
     \<noteq> Some (tensor_data example_tensor_a @ tensor_data example_tensor_b)"
proof -
  have put: "TensorToPlasma_ComputeAsync example_serializer example_env CPUDevice
     [example_tensor_a, example_tensor_b, example_id_tensor] example_world
     = (Returned, example_world_sealed)"
    unfolding example_world_sealed_def by (rule example_put_host)
  have payload: "tensor_data example_tensor_a @ tensor_data example_tensor_b
                   = [1, 2, 3, 4, 5, 6, 7, 8, 9, 10, 11, 12]"
    by (simp add: example_tensor_a_def example_tensor_b_def)
  show ?thesis
    unfolding example_get_host payload using put by simp
qed

section \<open>The completion callback\<close>

lemmas obs_defs = done_calls_def scheduled_callbacks_def completions_def pending_def
  is_Execute_def

lemma copy_to_object_obs:
  "copy_to_object object_id i pos src n w = (r, w') \<Longrightarrow>
   done_calls w' = done_calls w \<and> d2h_stream w' = d2h_stream w \<and> h2d_stream w' = h2d_stream w"
  by (auto simp: copy_to_object_def prim_defs obs_defs split: option.splits)

lemma host_copy_loop_obs:
  "host_copy_loop inputs offsets object_id data is w = (r, w') \<Longrightarrow>
   done_calls w' = done_calls w \<and> d2h_stream w' = d2h_stream w \<and> h2d_stream w' = h2d_stream w"
proof (induction "is" arbitrary: w)
  case Nil
  then show ?case by simp
next
  case (Cons i rest)
  show ?case
  proof (cases "flat_float_data (inputs ! i)")
    case (Inl f)
    with Cons.prems show ?thesis by simp
  next
    case (Inr src)
    obtain r1 w1 where c: "copy_to_object object_id i
        (data + sizeof_float * (offsets ! i div sizeof_float)) src
        (size_t_sub (offsets ! (i + 1)) (offsets ! i)) w = (r1, w1)"
      by (cases "copy_to_object object_id i
        (data + sizeof_float * (offsets ! i div sizeof_float)) src
        (size_t_sub (offsets ! (i + 1)) (offsets ! i)) w")
    note one = copy_to_object_obs [OF c]
    show ?thesis
    proof (cases "r1 = Returned")
      case True
      with Cons.prems Inr c have "host_copy_loop inputs offsets object_id data rest w1 = (r, w')"
        by simp
      from Cons.IH [OF this] one show ?thesis by simp
    next
      case False
      with Cons.prems Inr c have "w' = w1" by simp
      with one show ?thesis by simp
    qed
  qed
qed

lemma wrapped_callback_obs:
  "wrapped_callback object_id w = (r, w') \<Longrightarrow>
   done_calls w' = done_calls w + (if r = Returned then 1 else 0) \<and>
   d2h_stream w' = d2h_stream w \<and> h2d_stream w' = h2d_stream w"
  by (auto simp: wrapped_callback_def client_Seal_def prim_defs obs_defs Let_def
      split: option.splits if_splits)

lemma init_stream_obs:
  "init_stream d env w = Inr w1 \<Longrightarrow>
   done_calls w1 = done_calls w \<and> scheduled_callbacks w1 = scheduled_callbacks w \<and>
   stream_of d w1 \<noteq> None"
  by (auto simp: init_stream_def prim_defs obs_defs
      split: option.splits if_splits direction.splits)

lemma enqueue_obs:
  "stream_of d w \<noteq> None \<Longrightarrow>
   done_calls (enqueue d sop w) = done_calls w \<and>
   scheduled_callbacks (enqueue d sop w)
     = scheduled_callbacks w + (if is_Execute sop then 1 else 0) \<and>
   stream_of d (enqueue d sop w) \<noteq> None"
  by (auto simp: prim_defs obs_defs split: option.splits direction.splits)

lemma device_enqueue_loop_obs:
  "device_enqueue_loop env inputs offsets object_id data is w = (x, w') \<Longrightarrow>
   stream_of D2H w \<noteq> None \<Longrightarrow>
   done_calls w' = done_calls w \<and> scheduled_callbacks w' = scheduled_callbacks w \<and>
   stream_of D2H w' \<noteq> None"
proof (induction "is" arbitrary: w)
  case Nil
  then show ?case by simp
next
  case (Cons i rest)
  show ?case
  proof (cases "flat_float_data (inputs ! i)")
    case (Inl f)
    with Cons.prems show ?thesis by simp
  next
    case (Inr src)
    show ?thesis
    proof (cases "ThenMemcpy_ok env i")
      case True
      let ?sop = "Op_Memcpy_D2H object_id i
                    (data + sizeof_float * (offsets ! i div sizeof_float)) src
                    (size_t_sub (offsets ! (i + 1)) (offsets ! i))"
      from enqueue_obs [OF Cons.prems(2), of ?sop]
      have e: "done_calls (enqueue D2H ?sop w) = done_calls w"
        "scheduled_callbacks (enqueue D2H ?sop w) = scheduled_callbacks w"
        "stream_of D2H (enqueue D2H ?sop w) \<noteq> None"
        by (simp_all add: is_Execute_def)
      from Cons.prems(1) Inr True
      have "device_enqueue_loop env inputs offsets object_id data rest (enqueue D2H ?sop w)
              = (x, w')"
        by simp
      from Cons.IH [OF this e(3)] e show ?thesis by simp
    next
      case False
      with Cons.prems Inr show ?thesis by simp
    qed
  qed
qed

lemma call_done_obs:
  "done_calls (call_done w) = done_calls w + 1 \<and>
   scheduled_callbacks (call_done w) = scheduled_callbacks w"
  by (simp add: prim_defs obs_defs)

lemma SetStatus_obs [simp]:
  "done_calls (SetStatus s w) = done_calls w"
  "scheduled_callbacks (SetStatus s w) = scheduled_callbacks w"
  by (simp_all add: prim_defs obs_defs)

lemma Put_device_obs:
  assumes "Put_device env inputs offsets object_id data n w = (r, w')"
  shows "completions w' = completions w + (if r = Returned then 1 else 0)"
proof (cases "orig_stream_available env \<and> HostMemoryRegister_ok env")
  case False
  with assms show ?thesis
    by (auto simp: Put_device_def completions_def call_done_obs split: if_splits)
next
  case True
  show ?thesis
  proof (cases "init_stream D2H env w")
    case (Inl f)
    with assms True show ?thesis by (auto simp: Put_device_def)
  next
    case (Inr w1)
    note i1 = init_stream_obs [OF Inr]
    show ?thesis
    proof (cases "ThenWaitFor_ok env")
      case False
      with assms True Inr i1 show ?thesis
        by (auto simp: Put_device_def completions_def)
    next
      case wait: True
      let ?w1 = "enqueue D2H Op_WaitFor w1"
      from i1 have s1: "stream_of D2H w1 \<noteq> None" by simp
      from enqueue_obs [OF s1, of Op_WaitFor] i1
      have e1: "done_calls ?w1 = done_calls w" "scheduled_callbacks ?w1 = scheduled_callbacks w"
        "stream_of D2H ?w1 \<noteq> None"
        by (simp_all add: is_Execute_def)
      obtain x w2 where loop: "device_enqueue_loop env inputs offsets object_id data [0..<n] ?w1
          = (x, w2)"
        by (cases "device_enqueue_loop env inputs offsets object_id data [0..<n] ?w1")
      from device_enqueue_loop_obs [OF loop e1(3)] e1
      have e2: "done_calls w2 = done_calls w" "scheduled_callbacks w2 = scheduled_callbacks w"
        "stream_of D2H w2 \<noteq> None"
        by simp_all
      show ?thesis
      proof (cases x)
        case (Inl f)
        with assms True Inr wait loop e2 show ?thesis
          by (auto simp: Put_device_def completions_def)
      next
        case (Inr success)
        show ?thesis
        proof (cases success)
          case False
          with assms True \<open>init_stream D2H env w = Inr w1\<close> wait loop Inr e2 show ?thesis
            by (auto simp: Put_device_def completions_def call_done_obs)
        next
          case True
          from enqueue_obs [OF e2(3), of "Op_Execute (WrappedCallback object_id)"] e2
          have "completions (enqueue D2H (Op_Execute (WrappedCallback object_id)) w2)
                  = completions w + 1"
            by (simp add: completions_def is_Execute_def)
          with assms \<open>orig_stream_available env \<and> HostMemoryRegister_ok env\<close>
            \<open>init_stream D2H env w = Inr w1\<close> wait loop Inr True
          show ?thesis
            by (auto simp: Put_device_def)
        qed
      qed
    qed
  qed
qed


lemma completions_streams:
  "done_calls w' = done_calls w + k \<Longrightarrow> d2h_stream w' = d2h_stream w \<Longrightarrow>
   h2d_stream w' = h2d_stream w \<Longrightarrow> completions w' = completions w + k"
  by (simp add: completions_def scheduled_callbacks_def)

lemma client_Create_obs:
  "client_Create object_id data_size w = (c, w') \<Longrightarrow>
   done_calls w' = done_calls w \<and> d2h_stream w' = d2h_stream w \<and> h2d_stream w' = h2d_stream w"
  by (auto simp: client_Create_def prim_defs obs_defs Let_def split: if_splits)

lemma set_object_data_obs:
  "done_calls (set_object_data object_id d w) = done_calls w \<and>
   d2h_stream (set_object_data object_id d w) = d2h_stream w \<and>
   h2d_stream (set_object_data object_id d w) = h2d_stream w"
  by (simp add: set_object_data_def obs_defs split: option.splits)

lemma log_event_obs:
  "e \<noteq> Callback_Done \<Longrightarrow>
   done_calls (log_event e w) = done_calls w \<and> d2h_stream (log_event e w) = d2h_stream w \<and>
   h2d_stream (log_event e w) = h2d_stream w"
  by (simp add: prim_defs obs_defs)

lemma Put_store_obs:
  assumes run: "Put_store ser env device inputs plan w = (r, w')"
  shows "completions w' = completions w + (if r = Returned then 1 else 0)"
proof -
  let ?w1 = "log_event (Header_Size (plan_arrow_dtype plan) (plan_shape plan)) w"
  have o1: "done_calls ?w1 = done_calls w" "d2h_stream ?w1 = d2h_stream w"
    "h2d_stream ?w1 = h2d_stream w"
    using log_event_obs [of "Header_Size (plan_arrow_dtype plan) (plan_shape plan)" w]
    by simp_all
  then have c1: "completions ?w1 = completions w"
    using completions_streams [of ?w1 w 0] by simp
  show ?thesis
  proof (cases "TensorFlowTensorGetHeaderSize ser (plan_arrow_dtype plan) (plan_shape plan)")
    case (Inl e)
    with run c1 show ?thesis by (auto simp: Put_store_def Let_def)
  next
    case (Inr header_size)
    let ?sz = "int64_add header_size (to_int64 (plan_total_bytes plan))"
    obtain c w2 where cr: "client_Create (plan_object_id plan) ?sz ?w1 = (c, w2)"
      by (cases "client_Create (plan_object_id plan) ?sz ?w1")
    from client_Create_obs [OF cr] o1
    have o2: "done_calls w2 = done_calls w" "d2h_stream w2 = d2h_stream w"
      "h2d_stream w2 = h2d_stream w"
      by simp_all
    then have c2: "completions w2 = completions w"
      using completions_streams [of w2 w 0] by simp
    show ?thesis
    proof (cases c)
      case (Inl e)
      with run Inr cr c2 show ?thesis by (auto simp: Put_store_def Let_def)
    next
      case cInr: (Inr data_buffer)
      show ?thesis
      proof (cases "TensorFlowTensorWrite ser (plan_arrow_dtype plan) (plan_shape plan)
                      data_buffer")
        case None
        with run Inr cr cInr c2 show ?thesis by (auto simp: Put_store_def Let_def)
      next
        case (Some res)
        show ?thesis
        proof (cases res)
          case (Inl e)
          with run Inr cr cInr Some c2 show ?thesis by (auto simp: Put_store_def Let_def)
        next
          case rInr: (Inr bo)
          obtain buffer' offset where bo: "bo = (buffer', offset)" by (cases bo)
          let ?w3 = "set_object_data (plan_object_id plan) buffer' w2"
          from set_object_data_obs [of "plan_object_id plan" buffer' w2] o2
          have o3: "done_calls ?w3 = done_calls w" "d2h_stream ?w3 = d2h_stream w"
            "h2d_stream ?w3 = h2d_stream w"
            by simp_all
          then have c3: "completions ?w3 = completions w"
            using completions_streams [of ?w3 w 0] by simp
          show ?thesis
          proof (cases device)
            case CPUDevice
            obtain r4 w4 where loop: "host_copy_loop inputs (plan_offsets plan)
                (plan_object_id plan) (nat offset) [0..<length inputs - 1] ?w3 = (r4, w4)"
              by (cases "host_copy_loop inputs (plan_offsets plan)
                (plan_object_id plan) (nat offset) [0..<length inputs - 1] ?w3")
            from host_copy_loop_obs [OF loop] o3
            have o4: "done_calls w4 = done_calls w" "d2h_stream w4 = d2h_stream w"
              "h2d_stream w4 = h2d_stream w"
              by simp_all
            show ?thesis
            proof (cases "r4 = Returned")
              case True
              with run Inr cr cInr Some rInr bo CPUDevice loop
              have "wrapped_callback (plan_object_id plan) w4 = (r, w')"
                by (simp add: Put_store_def Let_def)
              from wrapped_callback_obs [OF this] o4 show ?thesis
                using completions_streams [of w' w "if r = Returned then 1 else 0"] by simp
            next
              case False
              with run Inr cr cInr Some rInr bo CPUDevice loop
              have "w' = w4" "r = r4" by (simp_all add: Put_store_def Let_def)
              with False o4 show ?thesis
                using completions_streams [of w4 w 0] by simp
            qed
          next
            case GPUDevice
            with run Inr cr cInr Some rInr bo
            have "Put_device env inputs (plan_offsets plan) (plan_object_id plan) (nat offset)
                    (length inputs - 1) ?w3 = (r, w')"
              by (simp add: Put_store_def Let_def)
            from Put_device_obs [OF this] c3 show ?thesis by simp
          qed
        qed
      qed
    qed
  qed
qed

lemma Put_obs:
  "completions (snd (TensorToPlasma_ComputeAsync ser env device inputs w))
     = completions w
       + (if fst (TensorToPlasma_ComputeAsync ser env device inputs w) = Returned then 1 else 0)"
proof (cases "2 \<le> length inputs")
  case False
  then show ?thesis
    by (simp add: TensorToPlasma_ComputeAsync_def completions_def call_done_obs)
next
  case True
  show ?thesis
  proof (cases "Put_plan inputs")
    case (Inl f)
    with True show ?thesis by (simp add: TensorToPlasma_ComputeAsync_def)
  next
    case (Inr plan)
    obtain r w' where run: "Put_store ser env device inputs plan w = (r, w')"
      by (cases "Put_store ser env device inputs plan w")
    from Put_store_obs [OF run] True Inr run show ?thesis
      by (simp add: TensorToPlasma_ComputeAsync_def)
  qed
qed

lemma Get_device_obs:
  assumes "Get_device env plasma_data n w = (r, w')"
  shows "completions w' = completions w + (if r = Returned then 1 else 0)"
proof (cases "orig_stream_available env")
  case False
  with assms show ?thesis
    by (auto simp: Get_device_def completions_def call_done_obs)
next
  case True
  show ?thesis
  proof (cases "init_stream H2D env w")
    case (Inl f)
    with assms True show ?thesis by (auto simp: Get_device_def)
  next
    case (Inr w1)
    note i1 = init_stream_obs [OF Inr]
    show ?thesis
    proof (cases "ThenMemcpy_ok env 0")
      case False
      with assms True Inr i1 show ?thesis
        by (auto simp: Get_device_def completions_def call_done_obs)
    next
      case ok: True
      let ?w2 = "enqueue H2D (Op_Memcpy_H2D plasma_data n) w1"
      from i1 have s1: "stream_of H2D w1 \<noteq> None" by simp
      from enqueue_obs [OF s1, of "Op_Memcpy_H2D plasma_data n"] i1
      have e2: "done_calls ?w2 = done_calls w" "scheduled_callbacks ?w2 = scheduled_callbacks w"
        "stream_of H2D ?w2 \<noteq> None"
        by (simp_all add: is_Execute_def)
      show ?thesis
      proof (cases "ThenWaitFor_ok env")
        case False
        with assms True Inr ok e2 show ?thesis
          by (auto simp: Get_device_def completions_def Let_def)
      next
        case wait: True
        from enqueue_obs [OF e2(3), of "Op_Execute DoneCallback"] e2
        have "completions (enqueue H2D (Op_Execute DoneCallback) ?w2) = completions w + 1"
          by (simp add: completions_def is_Execute_def)
        with assms True Inr ok wait show ?thesis
          by (auto simp: Get_device_def Let_def)
      qed
    qed
  qed
qed

lemma allocate_output_obs:
  "allocate_output env shape w = (a, w') \<Longrightarrow>
   done_calls w' = done_calls w \<and> d2h_stream w' = d2h_stream w \<and> h2d_stream w' = h2d_stream w"
  by (auto simp: allocate_output_def prim_defs obs_defs Let_def split: if_splits)

lemma Get_copy_obs:
  assumes "Get_copy env device object_buffer w = (r, w')"
  shows "completions w' = completions w + (if r = Returned then 1 else 0)"
proof -
  let ?shape = "[int (length object_buffer div sizeof_float)]"
  obtain a w2 where al: "allocate_output env ?shape w = (a, w2)"
    by (cases "allocate_output env ?shape w")
  from allocate_output_obs [OF al]
  have c2: "completions w2 = completions w"
    using completions_streams [of w2 w 0] by simp
  show ?thesis
  proof (cases a)
    case (Inl s)
    with assms al c2 show ?thesis
      by (auto simp: Get_copy_def Let_def completions_def call_done_obs)
  next
    case (Inr out)
    show ?thesis
    proof (cases device)
      case CPUDevice
      have upd: "completions (call_done (w2\<lparr>output_tensor := Some x\<rparr>)) = completions w2 + 1" for x
        by (simp add: prim_defs obs_defs)
      from assms al Inr CPUDevice c2 upd show ?thesis
        by (auto simp: Get_copy_def Let_def split: option.splits)
    next
      case GPUDevice
      with assms al Inr have "Get_device env object_buffer (length object_buffer) w2 = (r, w')"
        by (simp add: Get_copy_def Let_def)
      from Get_device_obs [OF this] c2 show ?thesis by simp
    qed
  qed
qed

lemma client_Get_obs:
  "client_Get object_id w = (g, w') \<Longrightarrow>
   done_calls w' = done_calls w \<and> d2h_stream w' = d2h_stream w \<and> h2d_stream w' = h2d_stream w"
  by (auto simp: client_Get_def prim_defs obs_defs Let_def split: if_splits option.splits)

lemma Get_obs:
  "completions (snd (PlasmaToTensor_ComputeAsync env device inputs w))
     = completions w
       + (if fst (PlasmaToTensor_ComputeAsync env device inputs w) = Returned then 1 else 0)"
proof (cases inputs)
  case Nil
  then show ?thesis by (simp add: PlasmaToTensor_ComputeAsync_def)
next
  case (Cons plasma_object_id rest)
  show ?thesis
  proof (cases "NumElements plasma_object_id = 1")
    case False
    with Cons show ?thesis by (simp add: PlasmaToTensor_ComputeAsync_def)
  next
    case True
    show ?thesis
    proof (cases "flat_string_0 plasma_object_id")
      case (Inl f)
      with Cons True show ?thesis by (simp add: PlasmaToTensor_ComputeAsync_def)
    next
      case (Inr s)
      obtain g w1 where get: "client_Get (from_binary s) w = (g, w1)"
        by (cases "client_Get (from_binary s) w")
      from client_Get_obs [OF get]
      have c1: "completions w1 = completions w"
        using completions_streams [of w1 w 0] by simp
      show ?thesis
      proof (cases g)
        case None
        with Cons True Inr get c1 show ?thesis
          by (simp add: PlasmaToTensor_ComputeAsync_def Let_def)
      next
        case (Some res)
        show ?thesis
        proof (cases res)
          case (Inl e)
          with Cons True Inr get Some c1 show ?thesis
            by (simp add: PlasmaToTensor_ComputeAsync_def Let_def)
        next
          case rInr: (Inr object_buffer)
          obtain r w' where gc: "Get_copy env device object_buffer w1 = (r, w')"
            by (cases "Get_copy env device object_buffer w1")
          from Get_copy_obs [OF gc] c1 Cons True Inr get Some rInr gc show ?thesis
            by (simp add: PlasmaToTensor_ComputeAsync_def Let_def)
        qed
      qed
    qed
  qed
qed


lemma complete_op_obs:
  "complete_op sop w = (r, w') \<Longrightarrow>
   done_calls w' = done_calls w + (if is_Execute sop \<and> r = Returned then 1 else 0) \<and>
   d2h_stream w' = d2h_stream w \<and> h2d_stream w' = h2d_stream w"
proof (cases sop)
  case Op_WaitFor
  then show "complete_op sop w = (r, w') \<Longrightarrow> ?thesis"
    by (auto simp: complete_op_def is_Execute_def)
next
  case (Op_Memcpy_D2H object_id i pos src n)
  then show "complete_op sop w = (r, w') \<Longrightarrow> ?thesis"
    using copy_to_object_obs [of object_id i pos src n w r w']
    by (simp add: complete_op_def is_Execute_def)
next
  case (Op_Memcpy_H2D src n)
  then show "complete_op sop w = (r, w') \<Longrightarrow> ?thesis"
    by (auto simp: complete_op_def is_Execute_def obs_defs split: option.splits)
next
  case (Op_Execute cb)
  show "complete_op sop w = (r, w') \<Longrightarrow> ?thesis"
  proof (cases cb)
    case (WrappedCallback object_id)
    with Op_Execute show "complete_op sop w = (r, w') \<Longrightarrow> ?thesis"
      using wrapped_callback_obs [of object_id w r w']
      by (simp add: complete_op_def run_callback_def is_Execute_def)
  next
    case DoneCallback
    with Op_Execute show "complete_op sop w = (r, w') \<Longrightarrow> ?thesis"
      by (auto simp: complete_op_def run_callback_def is_Execute_def prim_defs obs_defs)
  qed
qed

lemma pop_obs:
  "stream_of d w = Some (sop # q) \<Longrightarrow>
   done_calls (set_stream d (Some q) w) = done_calls w \<and>
   scheduled_callbacks (set_stream d (Some q) w) + (if is_Execute sop then 1 else 0)
     = scheduled_callbacks w"
  by (auto simp: prim_defs obs_defs split: direction.splits)

lemma stream_run_obs:
  "stream_run d k w = (Returned, w') \<Longrightarrow> completions w' = completions w"
proof (induction k arbitrary: w)
  case 0
  then show ?case by simp
next
  case (Suc k)
  show ?case
  proof (cases "stream_of d w")
    case None
    with Suc.prems show ?thesis by simp
  next
    case (Some ops)
    show ?thesis
    proof (cases ops)
      case Nil
      with Suc.prems Some show ?thesis by simp
    next
      case (Cons sop q)
      let ?w0 = "set_stream d (Some q) w"
      obtain r1 w1 where c: "complete_op sop ?w0 = (r1, w1)"
        by (cases "complete_op sop ?w0")
      from Suc.prems Some Cons c have r1: "r1 = Returned"
        by (cases "r1 = Returned") simp_all
      with Suc.prems Some Cons c have rest: "stream_run d k w1 = (Returned, w')" by simp
      from Some Cons have "stream_of d w = Some (sop # q)" by simp
      note p = pop_obs [OF this]
      from complete_op_obs [OF c] r1 p have "completions w1 = completions w"
        by (simp add: completions_def scheduled_callbacks_def)
      with Suc.IH [OF rest] show ?thesis by simp
    qed
  qed
qed


lemma wrapped_callback_streams:
  "d2h_stream (snd (wrapped_callback object_id w)) = d2h_stream w \<and>
   h2d_stream (snd (wrapped_callback object_id w)) = h2d_stream w"
  using wrapped_callback_obs [of object_id w "fst (wrapped_callback object_id w)"
      "snd (wrapped_callback object_id w)"]
  by simp

lemma host_copy_loop_streams:
  "d2h_stream (snd (host_copy_loop inputs offsets object_id data is w)) = d2h_stream w \<and>
   h2d_stream (snd (host_copy_loop inputs offsets object_id data is w)) = h2d_stream w"
  using host_copy_loop_obs [of inputs offsets object_id data "is" w
      "fst (host_copy_loop inputs offsets object_id data is w)"
      "snd (host_copy_loop inputs offsets object_id data is w)"]
  by simp

lemma client_Create_streams:
  "d2h_stream (snd (client_Create object_id data_size w)) = d2h_stream w \<and>
   h2d_stream (snd (client_Create object_id data_size w)) = h2d_stream w"
  using client_Create_obs [of object_id data_size w "fst (client_Create object_id data_size w)"
      "snd (client_Create object_id data_size w)"]
  by simp

lemma Put_store_host_streams:
  "d2h_stream (snd (Put_store ser env CPUDevice inputs plan w)) = d2h_stream w \<and>
   h2d_stream (snd (Put_store ser env CPUDevice inputs plan w)) = h2d_stream w"
proof -
  let ?w1 = "log_event (Header_Size (plan_arrow_dtype plan) (plan_shape plan)) w"
  have s1: "d2h_stream ?w1 = d2h_stream w" "h2d_stream ?w1 = h2d_stream w"
    by (simp_all add: prim_defs)
  show ?thesis
  proof (cases "TensorFlowTensorGetHeaderSize ser (plan_arrow_dtype plan) (plan_shape plan)")
    case (Inl e)
    with s1 show ?thesis by (simp add: Put_store_def Let_def)
  next
    case (Inr header_size)
    let ?cr = "client_Create (plan_object_id plan)
                 (int64_add header_size (to_int64 (plan_total_bytes plan))) ?w1"
    from client_Create_streams [of "plan_object_id plan"
        "int64_add header_size (to_int64 (plan_total_bytes plan))" ?w1] s1
    have s2: "d2h_stream (snd ?cr) = d2h_stream w" "h2d_stream (snd ?cr) = h2d_stream w"
      by simp_all
    show ?thesis
      using Inr s2
      by (cases ?cr)
         (simp add: Put_store_def Let_def case_prod_beta set_object_data_obs
            wrapped_callback_streams host_copy_loop_streams
            split: sum.splits option.splits)
  qed
qed

lemma Put_host_streams:
  "d2h_stream (snd (TensorToPlasma_ComputeAsync ser env CPUDevice inputs w)) = d2h_stream w \<and>
   h2d_stream (snd (TensorToPlasma_ComputeAsync ser env CPUDevice inputs w)) = h2d_stream w"
  by (simp add: TensorToPlasma_ComputeAsync_def Put_store_host_streams prim_defs
      split: sum.splits)


lemmas device_defs = Put_device_def init_stream_def complete_op_def run_callback_def

lemma example_put_device:
  "TensorToPlasma_ComputeAsync example_serializer example_env GPUDevice
     [example_tensor_a, example_tensor_b, example_id_tensor] example_world
     = (Returned, example_world_enqueued)"
  by (simp add: example_world_enqueued_def example_defs plan_defs run_defs prim_defs
      device_defs upt_conv_Cons)



lemma stream_run_Suc_eval:
  "stream_run d (Suc k) w =
    (case stream_of d w of
       None \<Rightarrow> (Returned, w)
     | Some [] \<Rightarrow> (Returned, w)
     | Some (sop # q) \<Rightarrow>
         (if fst (complete_op sop (set_stream d (Some q) w)) = Returned
          then stream_run d k (snd (complete_op sop (set_stream d (Some q) w)))
          else complete_op sop (set_stream d (Some q) w)))"
  by (simp add: case_prod_beta split: option.splits list.splits)

lemma stream_run_numeral:
  "stream_run d (numeral n) w =
    (case stream_of d w of
       None \<Rightarrow> (Returned, w)
     | Some [] \<Rightarrow> (Returned, w)
     | Some (sop # q) \<Rightarrow>
         (if fst (complete_op sop (set_stream d (Some q) w)) = Returned
          then stream_run d (pred_numeral n) (snd (complete_op sop (set_stream d (Some q) w)))
          else complete_op sop (set_stream d (Some q) w)))"
  using stream_run_Suc_eval [of d "pred_numeral n" w] by (simp add: numeral_eq_Suc)

lemma example_stream_run:
  "stream_run D2H 4 example_world_enqueued = (Returned, example_world_completed)"
  by (simp add: example_world_enqueued_def example_world_completed_def
      example_world_sealed_def stream_run_numeral run_defs prim_defs device_defs)


lemma Get_copy_host_streams:
  "d2h_stream (snd (Get_copy env CPUDevice object_buffer w)) = d2h_stream w \<and>
   h2d_stream (snd (Get_copy env CPUDevice object_buffer w)) = h2d_stream w"
  by (simp add: Get_copy_def allocate_output_def Let_def prim_defs split: option.splits)

lemma Get_host_streams:
  "d2h_stream (snd (PlasmaToTensor_ComputeAsync env CPUDevice inputs w)) = d2h_stream w \<and>
   h2d_stream (snd (PlasmaToTensor_ComputeAsync env CPUDevice inputs w)) = h2d_stream w"
  by (simp add: PlasmaToTensor_ComputeAsync_def client_Get_def Get_copy_host_streams Let_def
      prim_defs split: list.splits sum.splits option.splits)

text \<open>
  C9, as amended. Counting a call of \<^verbatim>\<open>done()\<close> and a callback handed to
  \<^verbatim>\<open>ThenExecute\<close> and still waiting on a staging stream alike: a Put or a Get adds exactly
  one when it returns (success, the arity failure, a failed output allocation, a missing
  device stream, a copy that the device refuses to enqueue) and none when it ends in a
  fatal check, blocks or overruns. On the host nothing is handed to a stream, so there
  \<^verbatim>\<open>done()\<close> itself is called exactly once on return. Completing the work of a stream
  keeps the count: a waiting callback is run once, and \<^verbatim>\<open>done()\<close> with it, unless the
  process ends first.
\<close>

theorem completion_callback_once_iff_returned:
  "completions (snd (TensorToPlasma_ComputeAsync ser env device inputs w))
     = completions w
       + (if fst (TensorToPlasma_ComputeAsync ser env device inputs w) = Returned then 1 else 0) \<and>
   completions (snd (PlasmaToTensor_ComputeAsync env device inputs w))
     = completions w
       + (if fst (PlasmaToTensor_ComputeAsync env device inputs w) = Returned then 1 else 0) \<and>
   scheduled_callbacks (snd (TensorToPlasma_ComputeAsync ser env CPUDevice inputs w))
     = scheduled_callbacks w \<and>
   scheduled_callbacks (snd (PlasmaToTensor_ComputeAsync env CPUDevice inputs w))
     = scheduled_callbacks w \<and>
   (stream_run d k w = (Returned, w') \<longrightarrow> completions w' = completions w)"
  using Put_obs [of ser env device inputs w] Get_obs [of env device inputs w]
    Put_host_streams [of ser env inputs w] Get_host_streams [of env inputs w]
    stream_run_obs [of d k w w']
  by (simp add: scheduled_callbacks_def)

theorem completion_callback_once_iff_returned_witness:
  "fst (TensorToPlasma_ComputeAsync example_serializer example_env GPUDevice
          [example_tensor_a, example_tensor_b, example_id_tensor] example_world) = Returned \<and>
   completions example_world = 0 \<and>
   completions (snd (TensorToPlasma_ComputeAsync example_serializer example_env GPUDevice
          [example_tensor_a, example_tensor_b, example_id_tensor] example_world)) = 1 \<and>
   done_calls example_world_enqueued = 0 \<and>
   stream_run D2H 4 example_world_enqueued = (Returned, example_world_completed) \<and>
   completions example_world_completed = 1 \<and>
   done_calls example_world_completed = 1"
proof -
  let ?ins = "[example_tensor_a, example_tensor_b, example_id_tensor]"
  note inst = completion_callback_once_iff_returned [of example_serializer example_env GPUDevice
      ?ins example_world D2H 4 example_world_completed]
  have start: "completions example_world = 0"
    by (simp add: obs_defs example_world_def)
  have put: "fst (TensorToPlasma_ComputeAsync example_serializer example_env GPUDevice ?ins
                example_world) = Returned"
    by (simp add: example_put_device)
  from inst put start
  have c1: "completions (snd (TensorToPlasma_ComputeAsync example_serializer example_env
              GPUDevice ?ins example_world)) = 1"
    by simp
  then have c1': "completions example_world_enqueued = 1"
    by (simp add: example_put_device)
  have d0: "done_calls example_world_enqueued = 0"
    by (simp add: done_calls_def example_world_enqueued_def)
  note run = example_stream_run
  from completion_callback_once_iff_returned [of example_serializer example_env GPUDevice
      ?ins example_world_enqueued D2H 4 example_world_completed] run c1'
  have c2: "completions example_world_completed = 1"
    by simp
  have d1: "done_calls example_world_completed = 1"
    by (simp add: done_calls_def example_world_completed_def example_world_sealed_def)
  from put start c1 d0 run c2 d1 show ?thesis by simp
qed

text \<open>
  The claim as stated fails: when the store is full, \<^verbatim>\<open>Create\<close> fails, \<^verbatim>\<open>ARROW_CHECK_OK\<close>
  ends the process, and \<^verbatim>\<open>done()\<close> is neither called nor handed to a stream.
\<close>

theorem completion_callback_missing_counterexample:
  "TensorToPlasma_ComputeAsync example_serializer example_env CPUDevice
     [example_tensor_a, example_tensor_b, example_id_tensor] example_world_full
     = (Aborted (ARROW_CHECK_failed PlasmaStoreFull),
        example_world_full\<lparr>trace := [Header_Size arrow_float32 [3],
                                        Store_Create ''object-id-0000000001'' 16]\<rparr>) \<and>
   done_calls (snd (TensorToPlasma_ComputeAsync example_serializer example_env CPUDevice
     [example_tensor_a, example_tensor_b, example_id_tensor] example_world_full)) = 0 \<and>
   scheduled_callbacks (snd (TensorToPlasma_ComputeAsync example_serializer example_env
     CPUDevice [example_tensor_a, example_tensor_b, example_id_tensor] example_world_full)) = 0"
  by (simp add: example_world_full_def example_defs plan_defs run_defs prim_defs obs_defs)

section \<open>Put: the object that Create leaves in the store\<close>




















section \<open>Get: a size that is not a multiple of the element width\<close>

text \<open>
  C3 at a concrete input. The store holds a sealed object of five bytes, a size that is
  not a multiple of \<^verbatim>\<open>sizeof(float)\<close>. Get on the host fetches it; the status is still
  \<^verbatim>\<open>OK\<close> then, and with no check of the size the kernel requests the allocation of the
  shape \<open>[5 div 4] = [1]\<close>, which is granted: the output tensor has four bytes. The next
  step is \<^verbatim>\<open>memcpy(output, data, 5)\<close>, five bytes into the four-byte tensor: a copy that
  runs past the end of its destination, which is how the invocation ends.
\<close>

theorem get_indivisible_size_overruns_output:
  "store example_world_odd ''object-id-0000000001''
     = Some \<lparr>object_data = [1, 2, 3, 4, 5], sealed = True\<rparr> \<and>
   length [1, 2, 3, 4, 5 :: byte] = 5 \<and> \<not> sizeof_float dvd 5 \<and>
   client_Get ''object-id-0000000001'' example_world_odd
     = (Some (Inr [1, 2, 3, 4, 5]),
        log_event (Store_Get ''object-id-0000000001'') example_world_odd) \<and>
   status (log_event (Store_Get ''object-id-0000000001'') example_world_odd) = tf_OK \<and>
   fst (allocate_output example_env [int (5 div sizeof_float)]
          (log_event (Store_Get ''object-id-0000000001'') example_world_odd))
     = Inr (replicate 4 0) \<and>
   memcpy (replicate 4 0) 0 [1, 2, 3, 4, 5] 5 = None \<and>
   fst (PlasmaToTensor_ComputeAsync example_env CPUDevice [example_id_tensor]
          example_world_odd) = Memory_Overrun \<and>
   prefix [Store_Get ''object-id-0000000001'', Allocate_Output [1]]
     (trace (snd (PlasmaToTensor_ComputeAsync example_env CPUDevice [example_id_tensor]
          example_world_odd)))"
  by (simp add: example_world_odd_def example_defs plan_defs run_defs prim_defs)

section \<open>The device path of Put: seal and callback after the copies\<close>























end
